theory Spec2Isabelle
  imports Complex_Main "HOL-Library.List_Lexorder" "HOL-Library.Char_ord"
begin

section \<open>JavaScript values used by the GA4 service\<close>

text \<open>
  The service reads metric values as strings and converts them with \<^verbatim>\<open>parseInt\<close> and
  \<^verbatim>\<open>parseFloat\<close>. Strings are byte strings; the white space skipped in front of a number
  is the ASCII part of ECMAScript's white space. Integers are unbounded (a double holds
  them exactly below \<open>2^53\<close>). A double that is not an integer is a real number: every
  operation computes the exact result and rounds it with the parameter \<open>fl\<close>; overflow and
  underflow of doubles are not modelled.
\<close>

datatype jsnum = NaN | PosInf | NegInf | Fin real

definition is_ws :: "char \<Rightarrow> bool" where
  "is_ws c = (c \<in> set [CHR 0x09, CHR 0x0A, CHR 0x0B, CHR 0x0C, CHR 0x0D, CHR 0x20])"

definition is_digit :: "char \<Rightarrow> bool" where
  "is_digit c = (c \<in> set ''0123456789'')"

definition is_hex_digit :: "char \<Rightarrow> bool" where
  "is_hex_digit c = (c \<in> set ''0123456789abcdefABCDEF'')"

definition digit_val :: "char \<Rightarrow> nat" where
  "digit_val c =
     (if c \<in> set ''abcdef'' then of_char c - 87
      else if c \<in> set ''ABCDEF'' then of_char c - 55
      else of_char c - 48)"

definition digits_val :: "nat \<Rightarrow> string \<Rightarrow> nat" where
  "digits_val radix ds = foldl (\<lambda>a c. radix * a + digit_val c) 0 ds"

definition strip_sign :: "string \<Rightarrow> bool \<times> string" where
  "strip_sign s =
     (case s of
        [] \<Rightarrow> (False, [])
      | c # r \<Rightarrow>
          if c = CHR ''-'' then (True, r)
          else if c = CHR ''+'' then (False, r)
          else (False, s))"

text \<open>\<^verbatim>\<open>parseInt(s)\<close> with no radix: \<open>None\<close> is NaN.\<close>

definition parseInt :: "string \<Rightarrow> int option" where
  "parseInt s =
     (let (neg, t) = strip_sign (dropWhile is_ws s);
          hex = (take 2 t = ''0x'' \<or> take 2 t = ''0X'');
          ds = (if hex then takeWhile is_hex_digit (drop 2 t) else takeWhile is_digit t);
          v = int (digits_val (if hex then 16 else 10) ds)
      in if ds = [] then None else Some (if neg then - v else v))"

text \<open>\<^verbatim>\<open>parseInt(s) || 0\<close>: NaN and 0 are falsy.\<close>

definition int_or_zero :: "int option \<Rightarrow> int" where
  "int_or_zero x = (case x of None \<Rightarrow> 0 | Some n \<Rightarrow> n)"

text \<open>The exponent part of a decimal literal: \<open>e\<close> or \<open>E\<close>, a sign, at least one digit.\<close>

definition exponent_part :: "string \<Rightarrow> int" where
  "exponent_part s =
     (case s of
        [] \<Rightarrow> 0
      | c # r \<Rightarrow>
          if c = CHR ''e'' \<or> c = CHR ''E'' then
            (let (neg, t) = strip_sign r; ds = takeWhile is_digit t
             in if ds = [] then 0
                else if neg then - int (digits_val 10 ds) else int (digits_val 10 ds))
          else 0)"

definition scale10 :: "real \<Rightarrow> int \<Rightarrow> real" where
  "scale10 m k = (if 0 \<le> k then m * 10 ^ nat k else m / 10 ^ nat (- k))"

text \<open>\<^verbatim>\<open>parseFloat(s)\<close>: the longest prefix that is a decimal literal, rounded.\<close>

definition parseFloat :: "(real \<Rightarrow> real) \<Rightarrow> string \<Rightarrow> jsnum" where
  "parseFloat fl s =
     (let (neg, u) = strip_sign (dropWhile is_ws s)
      in if take 8 u = ''Infinity'' then (if neg then NegInf else PosInf)
         else
           (let ip = takeWhile is_digit u;
                r1 = dropWhile is_digit u;
                fp = (case r1 of
                        [] \<Rightarrow> []
                      | c # r \<Rightarrow> if c = CHR ''.'' then takeWhile is_digit r else []);
                r2 = (case r1 of
                        [] \<Rightarrow> []
                      | c # r \<Rightarrow> if c = CHR ''.'' then dropWhile is_digit r else r1);
                m = scale10 (real (digits_val 10 (ip @ fp))) (exponent_part r2 - int (length fp))
            in if ip = [] \<and> fp = [] then NaN
               else Fin (fl (if neg then - m else m))))"

text \<open>\<^verbatim>\<open>x * 100\<close> and \<^verbatim>\<open>x || 0\<close> on numbers.\<close>

definition js_times :: "(real \<Rightarrow> real) \<Rightarrow> jsnum \<Rightarrow> real \<Rightarrow> jsnum" where
  "js_times fl x k =
     (case x of
        NaN \<Rightarrow> NaN
      | PosInf \<Rightarrow> (if 0 < k then PosInf else if k < 0 then NegInf else NaN)
      | NegInf \<Rightarrow> (if 0 < k then NegInf else if k < 0 then PosInf else NaN)
      | Fin r \<Rightarrow> Fin (fl (r * k)))"

definition num_or_zero :: "jsnum \<Rightarrow> jsnum" where
  "num_or_zero x = (case x of NaN \<Rightarrow> Fin 0 | _ \<Rightarrow> x)"

text \<open>\<^verbatim>\<open>s.substring(a, b)\<close> and \<^verbatim>\<open>s.includes(t)\<close>.\<close>

definition substring :: "string \<Rightarrow> nat \<Rightarrow> nat \<Rightarrow> string" where
  "substring s a b = take (max a b - min a b) (drop (min a b) s)"

fun str_includes :: "string \<Rightarrow> string \<Rightarrow> bool" where
  "str_includes [] t = (t = [])"
| "str_includes (c # s) t = (take (length t) (c # s) = t \<or> str_includes s t)"

section \<open>The provider's reports and the normalizer (ga4Service)\<close>

record js_error =
  code :: "string option"
  message :: string

record ga_row =
  dimensionValues :: "string list"
  metricValues :: "string list"

text \<open>\<open>rows\<close> is \<open>None\<close> when the response has no \<^verbatim>\<open>rows\<close> member.\<close>

record ga_response =
  rows :: "ga_row list option"

record total_metrics =
  sessions :: int
  users :: int
  newUsers :: int
  pageviews :: int
  avgSessionDuration :: jsnum
  bounceRate :: jsnum

record metrics = total_metrics +
  date :: string
  organicSessions :: int

text \<open>Reading \<^verbatim>\<open>.value\<close> of a missing array element throws a TypeError.\<close>

definition type_error :: js_error where
  "type_error = \<lparr>code = None, message = ''Cannot read properties of undefined''\<rparr>"

definition parseMetricsResponse :: "(real \<Rightarrow> real) \<Rightarrow> ga_response \<Rightarrow> js_error + total_metrics" where
  "parseMetricsResponse fl response =
     (case rows response of
        None \<Rightarrow>
          Inr \<lparr>sessions = 0, users = 0, newUsers = 0, pageviews = 0,
               avgSessionDuration = Fin 0, bounceRate = Fin 0\<rparr>
      | Some [] \<Rightarrow>
          Inr \<lparr>sessions = 0, users = 0, newUsers = 0, pageviews = 0,
               avgSessionDuration = Fin 0, bounceRate = Fin 0\<rparr>
      | Some (row # _) \<Rightarrow>
          (let mv = metricValues row
           in if length mv < 6 then Inl type_error
              else Inr \<lparr>sessions = int_or_zero (parseInt (mv ! 0)),
                        users = int_or_zero (parseInt (mv ! 1)),
                        newUsers = int_or_zero (parseInt (mv ! 2)),
                        pageviews = int_or_zero (parseInt (mv ! 3)),
                        avgSessionDuration = num_or_zero (parseFloat fl (mv ! 4)),
                        bounceRate = num_or_zero (js_times fl (parseFloat fl (mv ! 5)) 100)\<rparr>))"

definition parseOrganicSessions :: "ga_response \<Rightarrow> js_error + int" where
  "parseOrganicSessions response =
     (case rows response of
        None \<Rightarrow> Inr 0
      | Some [] \<Rightarrow> Inr 0
      | Some (row # _) \<Rightarrow>
          (case metricValues row of
             [] \<Rightarrow> Inl type_error
           | v # _ \<Rightarrow> Inr (int_or_zero (parseInt v))))"

definition formatGA4Date :: "string \<Rightarrow> string" where
  "formatGA4Date ga4Date =
     (let year = substring ga4Date 0 4;
          month = substring ga4Date 4 6;
          day = substring ga4Date 6 8
      in year @ ''-'' @ month @ ''-'' @ day)"

section \<open>The process environment, the provider and the store\<close>

text \<open>
  Everything outside the process is an oracle indexed by the number of external calls made
  so far (\<open>step\<close>): what the provider answers to a report request, whether the store rejects
  a statement, and what the clocks read. A call to the provider or to the store advances
  \<open>step\<close> by one, and so does a \<^verbatim>\<open>sleep\<close>. The tables hold the columns the sync service
  writes, named with their table's prefix (\<open>cl\<close>, \<open>dm\<close>, \<open>sl\<close>); a column holds the value bound
  to the statement's parameter (the store's own casts are not modelled). Of the console,
  the \<^verbatim>\<open>console.error\<close> lines are kept.
\<close>

record report_request =
  property :: string
  startDate :: string
  endDate :: string
  dimensions :: "string list"
  metricNames :: "string list"
  dimensionFilter :: "(string \<times> string \<times> string) option"

datatype sql = SelectActiveClients | SelectClientById | UpsertDailyMetric | InsertSyncLog

record env =
  runReport :: "nat \<Rightarrow> report_request \<Rightarrow> js_error + ga_response"
  getMetadata :: "nat \<Rightarrow> string \<Rightarrow> js_error option"
  db_fault :: "nat \<Rightarrow> sql \<Rightarrow> js_error option"
  date_now :: "nat \<Rightarrow> int"
  db_now :: "nat \<Rightarrow> int"
  rounding :: "real \<Rightarrow> real"

record client =
  cl_id :: int
  cl_name :: string
  cl_ga_property_id :: string
  cl_timezone :: string
  cl_is_active :: bool

record daily_metric =
  dm_client_id :: int
  dm_date :: string
  dm_sessions :: int
  dm_users :: int
  dm_new_users :: int
  dm_pageviews :: int
  dm_avg_session_duration :: jsnum
  dm_bounce_rate :: jsnum
  dm_organic_sessions :: int
  dm_synced_at :: int

record sync_log =
  sl_client_id :: int
  sl_sync_date :: string
  sl_status :: string
  sl_records_synced :: int
  sl_error_message :: "string option"
  sl_execution_time_ms :: int

datatype console_event =
    DatabaseQueryError js_error
  | ErrorFetchingGA4 string string
  | CannotAccessProperty string string
  | ReauthenticateHint
  | FailedToLogSync js_error
  | FailedToSync string string string
  | FatalSyncError js_error
  | BackfillError js_error

record world =
  clients :: "client list"
  daily_metrics :: "daily_metric list"
  sync_logs :: "sync_log list"
  console :: "console_event list"
  step :: nat

definition tick :: "world \<Rightarrow> world" where
  "tick w = w\<lparr>step := Suc (step w)\<rparr>"

definition console_error :: "console_event \<Rightarrow> world \<Rightarrow> world" where
  "console_error ev w = w\<lparr>console := console w @ [ev]\<rparr>"

definition Date_now :: "env \<Rightarrow> world \<Rightarrow> int" where
  "Date_now e w = date_now e (step w)"

definition sleep :: "nat \<Rightarrow> world \<Rightarrow> world" where
  "sleep ms w = tick w"

definition new_Error :: "string \<Rightarrow> js_error" where
  "new_Error msg = \<lparr>code = None, message = msg\<rparr>"

text \<open>\<^verbatim>\<open>query\<close> of config/database: the statement runs, or its error is logged and rethrown.\<close>

definition query :: "env \<Rightarrow> sql \<Rightarrow> world \<Rightarrow> js_error option \<times> world" where
  "query e q w =
     (case db_fault e (step w) q of
        None \<Rightarrow> (None, tick w)
      | Some err \<Rightarrow> (Some err, tick (console_error (DatabaseQueryError err) w)))"

definition ga_runReport :: "env \<Rightarrow> report_request \<Rightarrow> world \<Rightarrow> (js_error + ga_response) \<times> world" where
  "ga_runReport e req w = (runReport e (step w) req, tick w)"

subsection \<open>fetchDailyMetrics and validatePropertyAccess\<close>

definition total_request :: "string \<Rightarrow> string \<Rightarrow> report_request" where
  "total_request propertyId dt =
     \<lparr>property = ''properties/'' @ propertyId, startDate = dt, endDate = dt,
      dimensions = [''date''],
      metricNames = [''sessions'', ''totalUsers'', ''newUsers'', ''screenPageViews'',
                     ''averageSessionDuration'', ''bounceRate''],
      dimensionFilter = None\<rparr>"

definition organic_request :: "string \<Rightarrow> string \<Rightarrow> report_request" where
  "organic_request propertyId dt =
     \<lparr>property = ''properties/'' @ propertyId, startDate = dt, endDate = dt,
      dimensions = [''date''],
      metricNames = [''sessions''],
      dimensionFilter = Some (''sessionDefaultChannelGroup'', ''EXACT'', ''Organic Search'')\<rparr>"

definition session_expired :: js_error where
  "session_expired =
     new_Error (''Google Cloud session expired. Please run '' @ [CHR 0x22] @
                ''gcloud auth application-default login'' @ [CHR 0x22] @ '' to re-authenticate.'')"

text \<open>The \<^verbatim>\<open>catch\<close> block of \<^verbatim>\<open>fetchDailyMetrics\<close>: it always throws.\<close>

definition fetch_catch :: "string \<Rightarrow> string \<Rightarrow> js_error \<Rightarrow> js_error" where
  "fetch_catch propertyId dt err =
     (if code err = Some ''PERMISSION_DENIED'' then
        new_Error (''Permission denied for property '' @ propertyId @
                   ''. Ensure service account has Viewer access.'')
      else if code err = Some ''INVALID_ARGUMENT'' then
        new_Error (''Invalid property ID or date format: '' @ propertyId @ '', '' @ dt)
      else if code err = Some ''RESOURCE_EXHAUSTED'' then
        new_Error ''GA4 API quota exceeded. Please try again later.''
      else if str_includes (message err) ''invalid_rapt'' then session_expired
      else err)"

definition fetch_failed :: "string \<Rightarrow> string \<Rightarrow> js_error \<Rightarrow> world \<Rightarrow> (js_error + metrics) \<times> world" where
  "fetch_failed propertyId dt err w =
     (Inl (fetch_catch propertyId dt err),
      console_error (ErrorFetchingGA4 propertyId (message err)) w)"

definition fetchDailyMetrics :: "env \<Rightarrow> string \<Rightarrow> string \<Rightarrow> world \<Rightarrow> (js_error + metrics) \<times> world" where
  "fetchDailyMetrics e propertyId dt w =
     (let (totalResponse, w1) = ga_runReport e (total_request propertyId dt) w
      in case totalResponse of
           Inl err \<Rightarrow> fetch_failed propertyId dt err w1
         | Inr totalResp \<Rightarrow>
             (let (organicResponse, w2) = ga_runReport e (organic_request propertyId dt) w1
              in case organicResponse of
                   Inl err \<Rightarrow> fetch_failed propertyId dt err w2
                 | Inr organicResp \<Rightarrow>
                     (case parseMetricsResponse (rounding e) totalResp of
                        Inl err \<Rightarrow> fetch_failed propertyId dt err w2
                      | Inr totalMetrics \<Rightarrow>
                          (case parseOrganicSessions organicResp of
                             Inl err \<Rightarrow> fetch_failed propertyId dt err w2
                           | Inr organicSessions' \<Rightarrow>
                               (Inr \<lparr>sessions = sessions totalMetrics,
                                     users = users totalMetrics,
                                     newUsers = newUsers totalMetrics,
                                     pageviews = pageviews totalMetrics,
                                     avgSessionDuration = avgSessionDuration totalMetrics,
                                     bounceRate = bounceRate totalMetrics,
                                     date = dt,
                                     organicSessions = organicSessions'\<rparr>, w2)))))"

definition validatePropertyAccess :: "env \<Rightarrow> string \<Rightarrow> world \<Rightarrow> (js_error + bool) \<times> world" where
  "validatePropertyAccess e propertyId w =
     (case getMetadata e (step w) (''properties/'' @ propertyId @ ''/metadata'') of
        None \<Rightarrow> (Inr True, tick w)
      | Some err \<Rightarrow>
          (let w1 = console_error (CannotAccessProperty propertyId (message err)) (tick w);
               w2 = (if str_includes (message err) ''invalid_rapt''
                     then console_error ReauthenticateHint w1 else w1)
           in (Inr False, w2)))"

section \<open>Dates of the JavaScript runtime\<close>

text \<open>
  A \<^verbatim>\<open>Date\<close> is a number of milliseconds since the epoch. \<^verbatim>\<open>new Date(s)\<close> is modelled
  for the date-only form \<^verbatim>\<open>YYYY-MM-DD\<close> the service documents for its inputs (UTC midnight
  of that day; Node accepts a day of the month up to 31 and carries the excess into the
  next month); any other string is treated as an invalid date (\<open>None\<close>). \<^verbatim>\<open>toISOString\<close> prints in UTC.
  \<^verbatim>\<open>getDate\<close> and \<^verbatim>\<open>setDate\<close> work in the local time of the process, which its time zone
  gives as two functions, as ECMAScript does: the offset of local time at a UTC instant,
  and the offset by which a local time value is read back as an instant (at a local time
  that a transition repeats or skips, the offset before the transition).
\<close>

definition msPerDay :: int where
  "msPerDay = 86400000"

definition days_from_civil :: "int \<Rightarrow> int \<Rightarrow> int \<Rightarrow> int" where
  "days_from_civil y m d =
     (let y' = (if m \<le> 2 then y - 1 else y);
          era = y' div 400;
          yoe = y' - era * 400;
          doy = (153 * (if 2 < m then m - 3 else m + 9) + 2) div 5 + d - 1;
          doe = yoe * 365 + yoe div 4 - yoe div 100 + doy
      in era * 146097 + doe - 719468)"

definition civil_from_days :: "int \<Rightarrow> int \<times> int \<times> int" where
  "civil_from_days z =
     (let z' = z + 719468;
          era = z' div 146097;
          doe = z' - era * 146097;
          yoe = (doe - doe div 1460 + doe div 36524 - doe div 146096) div 365;
          doy = doe - (365 * yoe + yoe div 4 - yoe div 100);
          mp = (5 * doy + 2) div 153;
          d = doy - (153 * mp + 2) div 5 + 1;
          m = (if mp < 10 then mp + 3 else mp - 9);
          y = yoe + era * 400
      in (if m \<le> 2 then y + 1 else y, m, d))"

fun digits_of :: "nat \<Rightarrow> string" where
  "digits_of n =
     (if n < 10 then [char_of (48 + n)]
      else digits_of (n div 10) @ [char_of (48 + n mod 10)])"


definition pad :: "nat \<Rightarrow> nat \<Rightarrow> string" where
  "pad width n = replicate (width - length (digits_of n)) (CHR ''0'') @ digits_of n"

definition iso_year :: "int \<Rightarrow> string" where
  "iso_year y =
     (if 0 \<le> y \<and> y \<le> 9999 then pad 4 (nat y)
      else if y < 0 then ''-'' @ pad 6 (nat (- y))
      else ''+'' @ pad 6 (nat y))"

text \<open>\<^verbatim>\<open>d.toISOString().split('T')[0]\<close> of a valid date.\<close>

definition iso_date :: "int \<Rightarrow> string" where
  "iso_date t =
     (case civil_from_days (t div msPerDay) of
        (y, m, d) \<Rightarrow> iso_year y @ ''-'' @ pad 2 (nat m) @ ''-'' @ pad 2 (nat d))"

definition new_Date :: "string \<Rightarrow> int option" where
  "new_Date s =
     (let y = digits_val 10 (take 4 s);
          m = digits_val 10 (take 2 (drop 5 s));
          d = digits_val 10 (take 2 (drop 8 s))
      in if length s = 10 \<and> s ! 4 = CHR ''-'' \<and> s ! 7 = CHR ''-''
            \<and> list_all is_digit (take 4 s)
            \<and> list_all is_digit (take 2 (drop 5 s))
            \<and> list_all is_digit (take 2 (drop 8 s))
            \<and> 1 \<le> m \<and> m \<le> 12 \<and> 1 \<le> d \<and> d \<le> 31
         then Some (days_from_civil (int y) (int m) (int d) * msPerDay)
         else None)"

record zone =
  utc_offset :: "int \<Rightarrow> int"
  local_offset :: "int \<Rightarrow> int"

definition LocalTime :: "zone \<Rightarrow> int \<Rightarrow> int" where
  "LocalTime z t = t + utc_offset z t"

definition UTC :: "zone \<Rightarrow> int \<Rightarrow> int" where
  "UTC z t = t - local_offset z t"

text \<open>
  \<^verbatim>\<open>d.setDate(d.getDate() + k)\<close>: the day of the month of the local time moves by \<open>k\<close>, days
  outside the month carrying into the neighbouring months, and the local time of day stays;
  so the local time value moves by \<open>k\<close> days, and is read back as an instant.
\<close>

definition setDate_getDate_plus :: "zone \<Rightarrow> int \<Rightarrow> int \<Rightarrow> int" where
  "setDate_getDate_plus z t k = UTC z (LocalTime z t + k * msPerDay)"

text \<open>
  The loop of \<^verbatim>\<open>generateDateRange\<close>. Nothing in it bounds the number of rounds; \<open>None\<close> is
  a loop that never ends.
\<close>

partial_function (option) generateDateRange_loop ::
  "zone \<Rightarrow> int \<Rightarrow> int \<Rightarrow> string list \<Rightarrow> string list option" where
  "generateDateRange_loop z current endT dates =
     (if current \<le> endT
      then generateDateRange_loop z (setDate_getDate_plus z current 1) endT
             (dates @ [iso_date current])
      else Some dates)"

declare generateDateRange_loop.simps [code]

text \<open>A comparison with an invalid date is false: the loop body never runs.\<close>

definition generateDateRange :: "zone \<Rightarrow> string \<Rightarrow> string \<Rightarrow> string list option" where
  "generateDateRange z startD endD =
     (case (new_Date startD, new_Date endD) of
        (Some current, Some endT) \<Rightarrow> generateDateRange_loop z current endT []
      | _ \<Rightarrow> Some [])"

definition getYesterdayDate :: "zone \<Rightarrow> env \<Rightarrow> world \<Rightarrow> string" where
  "getYesterdayDate z e w = iso_date (setDate_getDate_plus z (Date_now e w) (- 1))"

text \<open>A zone at a fixed offset from UTC, and New York with its two transitions of 2024.\<close>

definition fixed_zone :: "int \<Rightarrow> zone" where
  "fixed_zone k = \<lparr>utc_offset = (\<lambda>t. k), local_offset = (\<lambda>t. k)\<rparr>"

definition new_york_2024 :: zone where
  "new_york_2024 =
     \<lparr>utc_offset =
        (\<lambda>t. if 1710054000000 \<le> t \<and> t < 1730613600000 then - 14400000 else - 18000000),
      local_offset =
        (\<lambda>t. if 1710039600000 \<le> t \<and> t < 1730599200000 then - 14400000 else - 18000000)\<rparr>"

section \<open>The sync service (syncService)\<close>

subsection \<open>The two writes\<close>

definition dm_key :: "daily_metric \<Rightarrow> int \<times> string" where
  "dm_key r = (dm_client_id r, dm_date r)"

definition metric_row :: "int \<Rightarrow> string \<Rightarrow> metrics \<Rightarrow> int \<Rightarrow> daily_metric" where
  "metric_row clientId' dt m now =
     \<lparr>dm_client_id = clientId', dm_date = dt,
      dm_sessions = sessions m, dm_users = users m, dm_new_users = newUsers m,
      dm_pageviews = pageviews m, dm_avg_session_duration = avgSessionDuration m,
      dm_bounce_rate = bounceRate m, dm_organic_sessions = organicSessions m,
      dm_synced_at = now\<rparr>"

text \<open>\<^verbatim>\<open>DO UPDATE SET\<close>: the columns the statement lists take the excluded row's values.\<close>

definition do_update_set :: "daily_metric \<Rightarrow> daily_metric \<Rightarrow> daily_metric" where
  "do_update_set x excluded =
     x\<lparr>dm_sessions := dm_sessions excluded, dm_users := dm_users excluded,
       dm_new_users := dm_new_users excluded, dm_pageviews := dm_pageviews excluded,
       dm_avg_session_duration := dm_avg_session_duration excluded,
       dm_bounce_rate := dm_bounce_rate excluded,
       dm_organic_sessions := dm_organic_sessions excluded,
       dm_synced_at := dm_synced_at excluded\<rparr>"

text \<open>\<^verbatim>\<open>INSERT ... ON CONFLICT (client_id, date) DO UPDATE\<close> on the table.\<close>

definition insert_on_conflict :: "daily_metric \<Rightarrow> daily_metric list \<Rightarrow> daily_metric list" where
  "insert_on_conflict r tbl =
     (if dm_key r \<in> set (map dm_key tbl)
      then map (\<lambda>x. if dm_key x = dm_key r then do_update_set x r else x) tbl
      else tbl @ [r])"

definition upsert_metrics :: "env \<Rightarrow> int \<Rightarrow> string \<Rightarrow> metrics \<Rightarrow> world \<Rightarrow> js_error option \<times> world" where
  "upsert_metrics e clientId' dt m w =
     (case query e UpsertDailyMetric w of
        (Some err, w1) \<Rightarrow> (Some err, w1)
      | (None, w1) \<Rightarrow>
          (None, w1\<lparr>daily_metrics :=
                       insert_on_conflict (metric_row clientId' dt m (db_now e (step w)))
                         (daily_metrics w1)\<rparr>))"

definition logSync ::
  "env \<Rightarrow> int \<Rightarrow> string \<Rightarrow> string \<Rightarrow> int \<Rightarrow> string option \<Rightarrow> int \<Rightarrow> world \<Rightarrow> world" where
  "logSync e clientId' syncDate status recordsSynced errorMessage executionTime' w =
     (case query e InsertSyncLog w of
        (None, w1) \<Rightarrow>
          w1\<lparr>sync_logs := sync_logs w1 @
                 [\<lparr>sl_client_id = clientId', sl_sync_date = syncDate, sl_status = status,
                   sl_records_synced = recordsSynced, sl_error_message = errorMessage,
                   sl_execution_time_ms = executionTime'\<rparr>]\<rparr>
      | (Some err, w1) \<Rightarrow> console_error (FailedToLogSync err) w1)"

subsection \<open>One tenant, one date\<close>

record sync_result =
  success :: bool
  clientId :: int
  clientName :: string
  result_date :: string
  result_metrics :: "metrics option"
  result_error :: "string option"
  executionTime :: int

text \<open>The \<^verbatim>\<open>catch\<close> block of \<^verbatim>\<open>syncClientMetrics\<close>.\<close>

definition sync_catch :: "env \<Rightarrow> client \<Rightarrow> string \<Rightarrow> int \<Rightarrow> js_error \<Rightarrow> world \<Rightarrow> sync_result \<times> world" where
  "sync_catch e c dt startTime err w =
     (let executionTime' = Date_now e w - startTime;
          w1 = logSync e (cl_id c) dt ''failed'' 0 (Some (message err)) executionTime' w;
          w2 = console_error (FailedToSync (cl_name c) dt (message err)) w1
      in (\<lparr>success = False, clientId = cl_id c, clientName = cl_name c, result_date = dt,
           result_metrics = None, result_error = Some (message err),
           executionTime = executionTime'\<rparr>, w2))"

definition syncClientMetrics :: "env \<Rightarrow> client \<Rightarrow> string \<Rightarrow> world \<Rightarrow> sync_result \<times> world" where
  "syncClientMetrics e c dt w =
     (let startTime = Date_now e w;
          (fetched, w1) = fetchDailyMetrics e (cl_ga_property_id c) dt w
      in case fetched of
           Inl err \<Rightarrow> sync_catch e c dt startTime err w1
         | Inr m \<Rightarrow>
             (case upsert_metrics e (cl_id c) dt m w1 of
                (Some err, w2) \<Rightarrow> sync_catch e c dt startTime err w2
              | (None, w2) \<Rightarrow>
                  (let executionTime' = Date_now e w2 - startTime;
                       w3 = logSync e (cl_id c) dt ''success'' 1 None executionTime' w2
                   in (\<lparr>success = True, clientId = cl_id c, clientName = cl_name c,
                        result_date = dt, result_metrics = Some m, result_error = None,
                        executionTime = executionTime'\<rparr>, w3))))"

subsection \<open>All active tenants, one date\<close>

record sync_summary =
  s_success :: bool
  s_date :: "string option"
  totalClients :: nat
  successCount :: nat
  failureCount :: nat
  totalTime :: "int option"
  results :: "sync_result list"

text \<open>
  The roster: \<^verbatim>\<open>WHERE is_active = true ORDER BY name\<close> (names compared as byte strings,
  equal names in table order).
\<close>

definition roster :: "world \<Rightarrow> client list" where
  "roster w = sort_key cl_name (filter cl_is_active (clients w))"

fun sync_clients_loop :: "env \<Rightarrow> string \<Rightarrow> client list \<Rightarrow> world \<Rightarrow> sync_result list \<times> world" where
  "sync_clients_loop e dt [] w = ([], w)"
| "sync_clients_loop e dt (c # cs) w =
     (let (r, w1) = syncClientMetrics e c dt w;
          w2 = sleep 500 w1;
          (rs, w3) = sync_clients_loop e dt cs w2
      in (r # rs, w3))"

definition syncAllClients :: "env \<Rightarrow> string \<Rightarrow> world \<Rightarrow> (js_error + sync_summary) \<times> world" where
  "syncAllClients e dt w =
     (let startTime = Date_now e w
      in case query e SelectActiveClients w of
           (Some err, w1) \<Rightarrow> (Inl err, console_error (FatalSyncError err) w1)
         | (None, w1) \<Rightarrow>
             (let cs = roster w1
              in if length cs = 0 then
                   (Inr \<lparr>s_success = True, s_date = None, totalClients = 0, successCount = 0,
                         failureCount = 0, totalTime = None, results = []\<rparr>, w1)
                 else
                   (let (rs, w2) = sync_clients_loop e dt cs w1;
                        successCount' = length (filter (\<lambda>r. success r) rs);
                        failureCount' = length (filter (\<lambda>r. \<not> success r) rs);
                        totalTime' = Date_now e w2 - startTime
                    in (Inr \<lparr>s_success = (failureCount' = 0), s_date = Some dt,
                             totalClients = length cs, successCount = successCount',
                             failureCount = failureCount', totalTime = Some totalTime',
                             results = rs\<rparr>, w2))))"

definition syncYesterday :: "zone \<Rightarrow> env \<Rightarrow> world \<Rightarrow> (js_error + sync_summary) \<times> world" where
  "syncYesterday z e w = (let yesterday = getYesterdayDate z e w in syncAllClients e yesterday w)"

subsection \<open>One tenant, a range of dates\<close>




section \<open>The entry points of the process\<close>

text \<open>
  Three entry points call \<^verbatim>\<open>syncYesterday\<close>: the scheduled job (and \<^verbatim>\<open>runSyncNow\<close>), the
  manual trigger \<^verbatim>\<open>POST /api/metrics/sync\<close>, and \<^verbatim>\<open>triggerBackgroundSync\<close> of the auto-sync
  middleware. The process is single threaded: entering an entry point and the settling of
  a run's promise are atomic events. The state is the module variable \<^verbatim>\<open>syncInProgress\<close> of
  the middleware and the runs in flight, by the entry point that started them. Every run
  in flight syncs the whole roster of active tenants.
\<close>

datatype entry_point = Scheduled | Manual | AutoSync

datatype event = Enter entry_point | Settled entry_point

record process =
  syncInProgress :: bool
  in_flight :: "entry_point list"

definition idle :: process where
  "idle = \<lparr>syncInProgress = False, in_flight = []\<rparr>"

text \<open>Whether an event calls \<^verbatim>\<open>syncYesterday\<close>: only the middleware looks at the flag.\<close>

fun starts_sync :: "process \<Rightarrow> event \<Rightarrow> bool" where
  "starts_sync p (Enter AutoSync) = (\<not> syncInProgress p)"
| "starts_sync p (Enter Scheduled) = True"
| "starts_sync p (Enter Manual) = True"
| "starts_sync p (Settled x) = False"

fun fire :: "process \<Rightarrow> event \<Rightarrow> process" where
  "fire p (Enter AutoSync) =
     (if syncInProgress p then p
      else p\<lparr>syncInProgress := True, in_flight := in_flight p @ [AutoSync]\<rparr>)"
| "fire p (Enter Scheduled) = p\<lparr>in_flight := in_flight p @ [Scheduled]\<rparr>"
| "fire p (Enter Manual) = p\<lparr>in_flight := in_flight p @ [Manual]\<rparr>"
| "fire p (Settled AutoSync) =
     (if AutoSync \<in> set (in_flight p)
      then p\<lparr>syncInProgress := False, in_flight := remove1 AutoSync (in_flight p)\<rparr>
      else p)"
| "fire p (Settled Scheduled) =
     (if Scheduled \<in> set (in_flight p)
      then p\<lparr>in_flight := remove1 Scheduled (in_flight p)\<rparr> else p)"
| "fire p (Settled Manual) =
     (if Manual \<in> set (in_flight p)
      then p\<lparr>in_flight := remove1 Manual (in_flight p)\<rparr> else p)"

text \<open>Some run of the trace starts while another run is in flight.\<close>

fun overlapping :: "process \<Rightarrow> event list \<Rightarrow> bool" where
  "overlapping p [] = False"
| "overlapping p (ev # evs) =
     ((starts_sync p ev \<and> in_flight p \<noteq> []) \<or> overlapping (fire p ev) evs)"

section \<open>Vocabulary of the properties\<close>

text \<open>The audit entry that documents a result.\<close>

definition log_entry_of :: "sync_result \<Rightarrow> sync_log" where
  "log_entry_of r =
     \<lparr>sl_client_id = clientId r, sl_sync_date = result_date r,
      sl_status = (if success r then ''success'' else ''failed''),
      sl_records_synced = (if success r then 1 else 0),
      sl_error_message = result_error r,
      sl_execution_time_ms = executionTime r\<rparr>"


definition fetch_returns :: "env \<Rightarrow> string \<Rightarrow> client \<Rightarrow> bool" where
  "fetch_returns e dt c = (\<forall>w. \<not> isl (fst (fetchDailyMetrics e (cl_ga_property_id c) dt w)))"

text \<open>The store accepts every statement of a kind.\<close>

definition accepts :: "env \<Rightarrow> sql \<Rightarrow> bool" where
  "accepts e q = (\<forall>n. db_fault e n q = None)"


section \<open>Worlds and environments to run the service on\<close>

text \<open>A provider without traffic, a store that takes every statement, clocks that read the step.\<close>

definition quiet_env :: env where
  "quiet_env =
     \<lparr>runReport = (\<lambda>n req. Inr \<lparr>rows = None\<rparr>),
      getMetadata = (\<lambda>n p. None),
      db_fault = (\<lambda>n q. None),
      date_now = (\<lambda>n. int n),
      db_now = (\<lambda>n. int n),
      rounding = (\<lambda>x. x)\<rparr>"

definition empty_world :: world where
  "empty_world = \<lparr>clients = [], daily_metrics = [], sync_logs = [], console = [], step = 0\<rparr>"

definition acme :: client where
  "acme = \<lparr>cl_id = 1, cl_name = ''Acme'', cl_ga_property_id = ''111'',
           cl_timezone = ''UTC'', cl_is_active = True\<rparr>"

definition beta :: client where
  "beta = \<lparr>cl_id = 2, cl_name = ''Beta'', cl_ga_property_id = ''222'',
           cl_timezone = ''UTC'', cl_is_active = True\<rparr>"

definition gone :: client where
  "gone = \<lparr>cl_id = 3, cl_name = ''Gone'', cl_ga_property_id = ''333'',
           cl_timezone = ''UTC'', cl_is_active = False\<rparr>"

definition three_clients :: world where
  "three_clients = empty_world\<lparr>clients := [beta, gone, acme]\<rparr>"


text \<open>
  Two environments that differ at most in what the store does with the audit insert, and
  two worlds with the same tables of tenants and metrics at the same point of the run.
\<close>

definition same_but_audit :: "env \<Rightarrow> env \<Rightarrow> bool" where
  "same_but_audit e1 e2 =
     (runReport e2 = runReport e1 \<and> date_now e2 = date_now e1 \<and> db_now e2 = db_now e1
      \<and> rounding e2 = rounding e1
      \<and> (\<forall>n q. q \<noteq> InsertSyncLog \<longrightarrow> db_fault e2 n q = db_fault e1 n q))"

definition same_store :: "world \<Rightarrow> world \<Rightarrow> bool" where
  "same_store w1 w2 =
     (step w2 = step w1 \<and> clients w2 = clients w1 \<and> daily_metrics w2 = daily_metrics w1)"

text \<open>The store rejects every audit insert.\<close>

definition audit_down_env :: env where
  "audit_down_env =
     quiet_env\<lparr>db_fault :=
       (\<lambda>n q. if q = InsertSyncLog
               then Some \<lparr>code = Some ''ECONNRESET'', message = ''connection reset''\<rparr>
               else None)\<rparr>"

text \<open>A world whose metrics table already has a row for Acme on 2024-03-01.\<close>

definition stale_world :: world where
  "stale_world =
     three_clients\<lparr>daily_metrics :=
       [\<lparr>dm_client_id = 1, dm_date = ''2024-03-01'', dm_sessions = 120, dm_users = 80,
         dm_new_users = 30, dm_pageviews = 400, dm_avg_session_duration = Fin 95.5,
         dm_bounce_rate = Fin 38, dm_organic_sessions = 45, dm_synced_at = - 1000\<rparr>]\<rparr>"

text \<open>
  A provider whose reports for the day are empty during its first eleven calls and carry
  the day's traffic afterwards.
\<close>

definition late_data_env :: env where
  "late_data_env =
     quiet_env\<lparr>runReport :=
       (\<lambda>n req. if n < 11 then Inr \<lparr>rows = None\<rparr>
                 else if dimensionFilter req = None
                 then Inr \<lparr>rows = Some [\<lparr>dimensionValues = [''20240301''],
                                         metricValues = [''150'', ''100'', ''40'', ''500'',
                                                         ''90'', ''0.5'']\<rparr>]\<rparr>
                 else Inr \<lparr>rows = Some [\<lparr>dimensionValues = [''20240301''],
                                         metricValues = [''60'']\<rparr>]\<rparr>)\<rparr>"

text \<open>The provider's metadata probe fails with a transient error.\<close>

definition metadata_unavailable_env :: env where
  "metadata_unavailable_env =
     quiet_env\<lparr>getMetadata :=
       (\<lambda>n p. Some \<lparr>code = Some ''UNAVAILABLE'', message = ''503 Service Unavailable''\<rparr>)\<rparr>"

text \<open>
  The date the specification gives for \<^verbatim>\<open>syncYesterday\<close>, in its words: the current date
  minus one calendar day, in the process's time zone, here a zone \<open>offset\<close> milliseconds
  ahead of UTC.
\<close>

definition yesterday_in_zone :: "int \<Rightarrow> int \<Rightarrow> string" where
  "yesterday_in_zone offset now = iso_date (((now + offset) div msPerDay - 1) * msPerDay)"

text \<open>A process whose clock reads 2024-01-14T21:30:00Z at every step.\<close>

definition late_evening_env :: env where
  "late_evening_env = quiet_env\<lparr>date_now := (\<lambda>n. 1705267800000)\<rparr>"


section \<open>Properties of the normalizer\<close>

lemma parseFloat_4532: "parseFloat fl ''0.4532'' = Fin (fl (4532 / 10 ^ 4))"
  by (simp add: parseFloat_def strip_sign_def is_ws_def is_digit_def digits_val_def
        digit_val_def scale10_def exponent_part_def)

lemma bounce_rate_bound:
  fixes fl :: "real \<Rightarrow> real"
  assumes rel: "\<forall>x. \<bar>fl x - x\<bar> \<le> \<bar>x\<bar> / 2 ^ 53"
  shows "\<bar>fl (fl (4532 / 10 ^ 4) * 100) - 45.32\<bar> \<le> 0.01"
proof -
  define a where "a = fl (4532 / 10 ^ 4)"
  define b where "b = fl (a * 100)"
  have ha: "\<bar>a - 4532 / 10 ^ 4\<bar> \<le> \<bar>4532 / 10 ^ 4\<bar> / 2 ^ 53"
    unfolding a_def using rel by blast
  have hb: "\<bar>b - a * 100\<bar> \<le> \<bar>a * 100\<bar> / 2 ^ 53"
    unfolding b_def using rel by blast
  have ha': "\<bar>a - 1133 / 2500\<bar> \<le> 1 / 1000000"
    using ha by simp
  then have a1: "\<bar>a * 100\<bar> \<le> 100" by linarith
  have "\<bar>a * 100\<bar> / 2 ^ 53 \<le> 100 / 2 ^ 53"
    using a1 by (rule divide_right_mono) simp
  also have "(100::real) / 2 ^ 53 \<le> 1 / 1000" by simp
  finally have hb': "\<bar>b - a * 100\<bar> \<le> 1 / 1000" using hb by linarith
  have "\<bar>b - 1133 / 25\<bar> \<le> 1 / 100" using ha' hb' by linarith
  then show ?thesis by (simp add: a_def b_def)
qed

lemma parseMetricsResponse_row:
  assumes "6 \<le> length mv"
  shows "parseMetricsResponse fl \<lparr>rows = Some (\<lparr>dimensionValues = dv, metricValues = mv\<rparr> # others)\<rparr> =
           Inr \<lparr>sessions = int_or_zero (parseInt (mv ! 0)),
                users = int_or_zero (parseInt (mv ! 1)),
                newUsers = int_or_zero (parseInt (mv ! 2)),
                pageviews = int_or_zero (parseInt (mv ! 3)),
                avgSessionDuration = num_or_zero (parseFloat fl (mv ! 4)),
                bounceRate = num_or_zero (js_times fl (parseFloat fl (mv ! 5)) 100)\<rparr>"
  using assms by (simp add: parseMetricsResponse_def)

lemma formatGA4Date_8:
  assumes "length s = 8"
  shows "formatGA4Date s = take 4 s @ ''-'' @ take 2 (drop 4 s) @ ''-'' @ drop 6 s"
  using assms by (simp add: formatGA4Date_def substring_def)

text \<open>
  Claim C4. The normalizer scales the provider's bounce-rate fraction by 100 and turns the
  provider's 8-digit date into calendar form. For a report row whose sixth metric value is
  the string \<open>0.4532\<close>, the normalized bounce rate is within 0.01 of 45.32, whatever the
  rounding of the double arithmetic (relative error at most \<open>2^-53\<close> per operation); in
  general the bounce rate is the parsed value times 100, and the row written to the store
  carries it unchanged. The date \<open>20240115\<close> becomes
  \<open>2024-01-15\<close>, and every 8-character date is cut 4-2-2 and joined with dashes.
\<close>

theorem normalizer_unit_conversion:
  "((\<forall>x. \<bar>fl x - x\<bar> \<le> \<bar>x\<bar> / 2 ^ 53) \<and> 6 \<le> length mv \<and> mv ! 5 = ''0.4532'' \<longrightarrow>
      (\<exists>tm b. parseMetricsResponse fl
                 \<lparr>rows = Some (\<lparr>dimensionValues = dv, metricValues = mv\<rparr> # others)\<rparr> = Inr tm
               \<and> bounceRate tm = Fin b \<and> \<bar>b - 45.32\<bar> \<le> 0.01))
   \<and> (6 \<le> length mv \<and> parseFloat fl (mv ! 5) = Fin x \<longrightarrow>
      (\<exists>tm. parseMetricsResponse fl
                 \<lparr>rows = Some (\<lparr>dimensionValues = dv, metricValues = mv\<rparr> # others)\<rparr> = Inr tm
               \<and> bounceRate tm = Fin (fl (x * 100))))
   \<and> dm_bounce_rate (metric_row i dt m t) = bounceRate m
   \<and> formatGA4Date ''20240115'' = ''2024-01-15''
   \<and> (length s = 8 \<longrightarrow>
        formatGA4Date s = take 4 s @ ''-'' @ take 2 (drop 4 s) @ ''-'' @ drop 6 s)"
proof (intro conjI impI)
  assume h: "(\<forall>x. \<bar>fl x - x\<bar> \<le> \<bar>x\<bar> / 2 ^ 53) \<and> 6 \<le> length mv \<and> mv ! 5 = ''0.4532''"
  then have "\<bar>fl (fl (4532 / 10 ^ 4) * 100) - 45.32\<bar> \<le> 0.01"
    using bounce_rate_bound by blast
  then show "\<exists>tm b. parseMetricsResponse fl
                 \<lparr>rows = Some (\<lparr>dimensionValues = dv, metricValues = mv\<rparr> # others)\<rparr> = Inr tm
               \<and> bounceRate tm = Fin b \<and> \<bar>b - 45.32\<bar> \<le> 0.01"
    using h by (simp add: parseMetricsResponse_row parseFloat_4532 js_times_def num_or_zero_def)
next
  assume "6 \<le> length mv \<and> parseFloat fl (mv ! 5) = Fin x"
  then show "\<exists>tm. parseMetricsResponse fl
                 \<lparr>rows = Some (\<lparr>dimensionValues = dv, metricValues = mv\<rparr> # others)\<rparr> = Inr tm
               \<and> bounceRate tm = Fin (fl (x * 100))"
    by (simp add: parseMetricsResponse_row js_times_def num_or_zero_def)
next
  show "dm_bounce_rate (metric_row i dt m t) = bounceRate m"
    by (simp add: metric_row_def)
next
  show "formatGA4Date ''20240115'' = ''2024-01-15''"
    by (simp add: formatGA4Date_def substring_def)
next
  assume "length s = 8"
  then show "formatGA4Date s = take 4 s @ ''-'' @ take 2 (drop 4 s) @ ''-'' @ drop 6 s"
    by (rule formatGA4Date_8)
qed

theorem normalizer_unit_conversion_witness:
  "(\<exists>tm b. parseMetricsResponse (\<lambda>x. x)
       \<lparr>rows = Some [\<lparr>dimensionValues = [''20240115''],
                       metricValues = [''120'', ''80'', ''30'', ''400'', ''95.5'', ''0.4532'']\<rparr>]\<rparr> = Inr tm
     \<and> bounceRate tm = Fin b \<and> \<bar>b - 45.32\<bar> \<le> 0.01)
   \<and> formatGA4Date ''20240115'' = ''2024-01-15''"
  using normalizer_unit_conversion
    [of "\<lambda>x. x" "[''120'', ''80'', ''30'', ''400'', ''95.5'', ''0.4532'']" "[''20240115'']" "[]"]
  by simp

section \<open>Properties of the sync service\<close>

subsection \<open>Frames of the primitive steps\<close>

lemma query_fst: "fst (query e q w) = db_fault e (step w) q"
  by (simp add: query_def split: option.splits)

lemma query_frame:
  "clients (snd (query e q w)) = clients w"
  "daily_metrics (snd (query e q w)) = daily_metrics w"
  "sync_logs (snd (query e q w)) = sync_logs w"
  "step (snd (query e q w)) = Suc (step w)"
  by (simp_all add: query_def tick_def console_error_def split: option.splits)

lemma fetch_frame:
  "clients (snd (fetchDailyMetrics e p dt w)) = clients w"
  "daily_metrics (snd (fetchDailyMetrics e p dt w)) = daily_metrics w"
  "sync_logs (snd (fetchDailyMetrics e p dt w)) = sync_logs w"
  by (simp_all add: fetchDailyMetrics_def ga_runReport_def fetch_failed_def tick_def
        console_error_def Let_def split: sum.splits prod.splits)

lemma logSync_frame:
  "clients (logSync e i d s n m t w) = clients w"
  "daily_metrics (logSync e i d s n m t w) = daily_metrics w"
  "step (logSync e i d s n m t w) = Suc (step w)"
  by (simp_all add: logSync_def query_def tick_def console_error_def split: option.splits)

lemma logSync_logs:
  "sync_logs (logSync e i d s n m t w) =
     (if db_fault e (step w) InsertSyncLog = None
      then sync_logs w @ [\<lparr>sl_client_id = i, sl_sync_date = d, sl_status = s,
              sl_records_synced = n, sl_error_message = m, sl_execution_time_ms = t\<rparr>]
      else sync_logs w)"
  by (simp add: logSync_def query_def tick_def console_error_def split: option.splits)

lemma upsert_frame:
  "clients (snd (upsert_metrics e i d m w)) = clients w"
  "sync_logs (snd (upsert_metrics e i d m w)) = sync_logs w"
  "step (snd (upsert_metrics e i d m w)) = Suc (step w)"
  by (simp_all add: upsert_metrics_def query_def tick_def console_error_def split: option.splits)

lemma upsert_fst: "fst (upsert_metrics e i d m w) = db_fault e (step w) UpsertDailyMetric"
  by (simp add: upsert_metrics_def query_def split: option.splits)

lemma upsert_table:
  "daily_metrics (snd (upsert_metrics e i d m w)) =
     (if db_fault e (step w) UpsertDailyMetric = None
      then insert_on_conflict (metric_row i d m (db_now e (step w))) (daily_metrics w)
      else daily_metrics w)"
  by (simp add: upsert_metrics_def query_def tick_def console_error_def split: option.splits)

lemma sync_catch_fst:
  "fst (sync_catch e c dt t0 err w) =
     \<lparr>success = False, clientId = cl_id c, clientName = cl_name c, result_date = dt,
      result_metrics = None, result_error = Some (message err),
      executionTime = Date_now e w - t0\<rparr>"
  by (simp add: sync_catch_def Let_def)

lemma sync_catch_frame:
  "clients (snd (sync_catch e c dt t0 err w)) = clients w"
  "daily_metrics (snd (sync_catch e c dt t0 err w)) = daily_metrics w"
  "step (snd (sync_catch e c dt t0 err w)) = Suc (step w)"
  by (simp_all add: sync_catch_def Let_def console_error_def logSync_frame)

lemma sync_catch_logs:
  "sync_logs (snd (sync_catch e c dt t0 err w)) =
     (if db_fault e (step w) InsertSyncLog = None
      then sync_logs w @ [log_entry_of (fst (sync_catch e c dt t0 err w))]
      else sync_logs w)"
  by (simp add: sync_catch_def Let_def console_error_def logSync_logs log_entry_of_def)

lemma syncClientMetrics_failed_fetch:
  assumes "fetchDailyMetrics e (cl_ga_property_id c) dt w = (Inl err, w1)"
  shows "syncClientMetrics e c dt w = sync_catch e c dt (Date_now e w) err w1"
  using assms by (simp add: syncClientMetrics_def Let_def)

lemma syncClientMetrics_failed_upsert:
  assumes "fetchDailyMetrics e (cl_ga_property_id c) dt w = (Inr m, w1)"
      and "db_fault e (step w1) UpsertDailyMetric = Some err"
  shows "syncClientMetrics e c dt w =
           sync_catch e c dt (Date_now e w) err (snd (upsert_metrics e (cl_id c) dt m w1))"
  using assms
  by (simp add: syncClientMetrics_def Let_def upsert_metrics_def query_def split: option.splits)

lemma syncClientMetrics_ok:
  assumes "fetchDailyMetrics e (cl_ga_property_id c) dt w = (Inr m, w1)"
      and "db_fault e (step w1) UpsertDailyMetric = None"
  shows "syncClientMetrics e c dt w =
           (\<lparr>success = True, clientId = cl_id c, clientName = cl_name c,
              result_date = dt, result_metrics = Some m, result_error = None,
              executionTime = Date_now e (snd (upsert_metrics e (cl_id c) dt m w1)) - Date_now e w\<rparr>,
            logSync e (cl_id c) dt ''success'' 1 None
              (Date_now e (snd (upsert_metrics e (cl_id c) dt m w1)) - Date_now e w)
              (snd (upsert_metrics e (cl_id c) dt m w1)))"
  using assms
  by (simp add: syncClientMetrics_def Let_def upsert_metrics_def query_def split: option.splits)

text \<open>The three ways one sync can go.\<close>

lemma syncClientMetrics_cases [case_names fetch_failed upsert_failed ok]:
  obtains
    (fetch_failed) err w1 where
      "fetchDailyMetrics e (cl_ga_property_id c) dt w = (Inl err, w1)"
      "syncClientMetrics e c dt w = sync_catch e c dt (Date_now e w) err w1"
  | (upsert_failed) m w1 err where
      "fetchDailyMetrics e (cl_ga_property_id c) dt w = (Inr m, w1)"
      "db_fault e (step w1) UpsertDailyMetric = Some err"
      "syncClientMetrics e c dt w =
         sync_catch e c dt (Date_now e w) err (snd (upsert_metrics e (cl_id c) dt m w1))"
  | (ok) m w1 where
      "fetchDailyMetrics e (cl_ga_property_id c) dt w = (Inr m, w1)"
      "db_fault e (step w1) UpsertDailyMetric = None"
      "syncClientMetrics e c dt w =
           (\<lparr>success = True, clientId = cl_id c, clientName = cl_name c,
              result_date = dt, result_metrics = Some m, result_error = None,
              executionTime = Date_now e (snd (upsert_metrics e (cl_id c) dt m w1)) - Date_now e w\<rparr>,
            logSync e (cl_id c) dt ''success'' 1 None
              (Date_now e (snd (upsert_metrics e (cl_id c) dt m w1)) - Date_now e w)
              (snd (upsert_metrics e (cl_id c) dt m w1)))"
proof (cases "fetchDailyMetrics e (cl_ga_property_id c) dt w")
  case (Pair fetched w1)
  show ?thesis
  proof (cases fetched)
    case (Inl err)
    with Pair show ?thesis
      using fetch_failed syncClientMetrics_failed_fetch by blast
  next
    case (Inr m)
    show ?thesis
    proof (cases "db_fault e (step w1) UpsertDailyMetric")
      case None
      with Pair Inr show ?thesis
        using ok syncClientMetrics_ok by blast
    next
      case (Some err)
      with Pair Inr show ?thesis
        using upsert_failed syncClientMetrics_failed_upsert by blast
    qed
  qed
qed

lemma fetch_frameD:
  assumes "fetchDailyMetrics e p dt w = (f, w1)"
  shows "clients w1 = clients w \<and> daily_metrics w1 = daily_metrics w \<and> sync_logs w1 = sync_logs w"
  using fetch_frame [of e p dt w] assms by simp

lemma sync_result_basic:
  "clientId (fst (syncClientMetrics e c dt w)) = cl_id c"
  "clientName (fst (syncClientMetrics e c dt w)) = cl_name c"
  "result_date (fst (syncClientMetrics e c dt w)) = dt"
  "success (fst (syncClientMetrics e c dt w)) = (result_metrics (fst (syncClientMetrics e c dt w)) \<noteq> None)"
  by (rule syncClientMetrics_cases [where e=e and c=c and dt=dt and w=w]; simp add: sync_catch_fst)+

lemma sync_clients_frame:
  "clients (snd (syncClientMetrics e c dt w)) = clients w"
  by (rule syncClientMetrics_cases [where e=e and c=c and dt=dt and w=w])
     (auto dest!: fetch_frameD simp: sync_catch_frame logSync_frame upsert_frame)

text \<open>The audit log after one sync: the entry of the result, when the store took it.\<close>

lemma sync_logs_step:
  "sync_logs (snd (syncClientMetrics e c dt w)) =
     (if db_fault e (step (snd (syncClientMetrics e c dt w)) - 1) InsertSyncLog = None
      then sync_logs w @ [log_entry_of (fst (syncClientMetrics e c dt w))]
      else sync_logs w)"
  by (rule syncClientMetrics_cases [where e=e and c=c and dt=dt and w=w])
     (auto dest!: fetch_frameD
        simp: sync_catch_frame sync_catch_logs logSync_frame logSync_logs upsert_frame
          log_entry_of_def)


text \<open>The metrics table after one sync.\<close>

lemma sync_table_step:
  "\<exists>t. daily_metrics (snd (syncClientMetrics e c dt w)) =
     (case result_metrics (fst (syncClientMetrics e c dt w)) of
        None \<Rightarrow> daily_metrics w
      | Some m \<Rightarrow> insert_on_conflict (metric_row (cl_id c) dt m t) (daily_metrics w))"
  by (rule syncClientMetrics_cases [where e=e and c=c and dt=dt and w=w])
     (auto dest!: fetch_frameD
        simp: sync_catch_frame sync_catch_fst logSync_frame upsert_table)

lemma sync_success_iff:
  assumes "fetchDailyMetrics e (cl_ga_property_id c) dt w = (f, w1)"
  shows "success (fst (syncClientMetrics e c dt w)) \<longleftrightarrow>
           \<not> isl f \<and> db_fault e (step w1) UpsertDailyMetric = None"
  using assms
  by (rule_tac syncClientMetrics_cases [where e=e and c=c and dt=dt and w=w])
     (auto simp: sync_catch_fst)


subsection \<open>The upsert statement\<close>

lemma do_update_set_same_key:
  assumes "dm_key x = dm_key r"
  shows "do_update_set x r = r"
  using assms by (cases x; cases r) (simp add: do_update_set_def dm_key_def)

lemma insert_on_conflict_keys:
  "map dm_key (insert_on_conflict r tbl) =
     (if dm_key r \<in> set (map dm_key tbl) then map dm_key tbl else map dm_key tbl @ [dm_key r])"
proof -
  have "map (dm_key \<circ> (\<lambda>x. if dm_key x = dm_key r then do_update_set x r else x)) tbl
        = map dm_key tbl"
    by (rule map_cong) (auto simp: do_update_set_same_key)
  then show ?thesis by (simp add: insert_on_conflict_def)
qed

lemma insert_on_conflict_distinct:
  assumes "distinct (map dm_key tbl)"
  shows "distinct (map dm_key (insert_on_conflict r tbl))"
  using assms by (simp add: insert_on_conflict_keys)


lemma insert_on_conflict_mem: "r \<in> set (insert_on_conflict r tbl)"
  by (auto simp: insert_on_conflict_def do_update_set_same_key image_iff)

lemma insert_on_conflict_other:
  assumes "x \<in> set tbl" and "dm_key x \<noteq> dm_key r"
  shows "x \<in> set (insert_on_conflict r tbl)"
  using assms by (auto simp: insert_on_conflict_def image_iff)

lemma distinct_filter_single:
  assumes "distinct (map f xs)" and "x \<in> set xs"
  shows "filter (\<lambda>y. f y = f x) xs = [x]"
  using assms
proof (induction xs)
  case Nil
  then show ?case by simp
next
  case (Cons a xs)
  show ?case
  proof (cases "a = x")
    case True
    have "\<forall>y\<in>set xs. f y \<noteq> f x" using Cons.prems(1) True by (auto simp: image_iff)
    then have "filter (\<lambda>y. f y = f x) xs = []" by (simp add: filter_empty_conv)
    with True show ?thesis by simp
  next
    case False
    with Cons.prems have "x \<in> set xs" by simp
    moreover have "f a \<noteq> f x" using Cons.prems(1) \<open>x \<in> set xs\<close> by (auto simp: image_iff)
    ultimately show ?thesis using Cons by simp
  qed
qed

subsection \<open>The loop over the roster\<close>

lemma sleep_frame:
  "clients (sleep ms w) = clients w"
  "daily_metrics (sleep ms w) = daily_metrics w"
  "sync_logs (sleep ms w) = sync_logs w"
  by (simp_all add: sleep_def tick_def)

lemma loop_results:
  "map clientId (fst (sync_clients_loop e dt cs w)) = map cl_id cs"
  "map result_date (fst (sync_clients_loop e dt cs w)) = map (\<lambda>c. dt) cs"
  "length (fst (sync_clients_loop e dt cs w)) = length cs"
  by (induction cs arbitrary: w; simp add: Let_def case_prod_beta sync_result_basic)+

lemma loop_clients:
  "clients (snd (sync_clients_loop e dt cs w)) = clients w"
  by (induction cs arbitrary: w)
     (simp_all add: Let_def case_prod_beta sync_clients_frame sleep_frame)


lemma sync_table_distinct:
  assumes "distinct (map dm_key (daily_metrics w))"
  shows "distinct (map dm_key (daily_metrics (snd (syncClientMetrics e c dt w))))"
  using sync_table_step [of e c dt w] assms
  by (auto simp: insert_on_conflict_distinct split: option.splits)

lemma loop_table_distinct:
  assumes "distinct (map dm_key (daily_metrics w))"
  shows "distinct (map dm_key (daily_metrics (snd (sync_clients_loop e dt cs w))))"
  using assms
  by (induction cs arbitrary: w)
     (simp_all add: Let_def case_prod_beta sync_table_distinct sleep_frame)

subsection \<open>The summary of a batch\<close>

lemma syncAllClients_rejects_iff:
  "isl (fst (syncAllClients e dt w)) \<longleftrightarrow> db_fault e (step w) SelectActiveClients \<noteq> None"
  by (auto simp: syncAllClients_def query_def Let_def case_prod_beta split: option.splits)

lemma syncAllClients_loaded:
  assumes "db_fault e (step w) SelectActiveClients = None"
  shows "syncAllClients e dt w =
           (if roster w = [] then
              (Inr \<lparr>s_success = True, s_date = None, totalClients = 0, successCount = 0,
                    failureCount = 0, totalTime = None, results = []\<rparr>, tick w)
            else
              (Inr \<lparr>s_success = (length (filter (\<lambda>r. \<not> success r)
                                 (fst (sync_clients_loop e dt (roster w) (tick w)))) = 0),
                    s_date = Some dt,
                    totalClients = length (roster w),
                    successCount = length (filter (\<lambda>r. success r)
                                 (fst (sync_clients_loop e dt (roster w) (tick w)))),
                    failureCount = length (filter (\<lambda>r. \<not> success r)
                                 (fst (sync_clients_loop e dt (roster w) (tick w)))),
                    totalTime = Some (Date_now e (snd (sync_clients_loop e dt (roster w) (tick w)))
                                      - Date_now e w),
                    results = fst (sync_clients_loop e dt (roster w) (tick w))\<rparr>,
               snd (sync_clients_loop e dt (roster w) (tick w))))"
  using assms
  by (simp add: syncAllClients_def query_def Let_def case_prod_beta roster_def tick_def)

lemma syncAllClients_results:
  assumes "syncAllClients e dt w = (Inr s, w')"
  shows "results s = fst (sync_clients_loop e dt (roster w) (tick w))
         \<and> w' = snd (sync_clients_loop e dt (roster w) (tick w))
         \<and> db_fault e (step w) SelectActiveClients = None"
proof -
  have ok: "db_fault e (step w) SelectActiveClients = None"
    using assms syncAllClients_rejects_iff [of e dt w] by simp
  show ?thesis
    using assms ok by (auto simp: syncAllClients_loaded split: if_splits)
qed

text \<open>
  Claim C10. When \<open>syncAllClients\<close> resolves, the summary's \<open>success\<close> field is true exactly
  when \<open>failureCount\<close> is 0, that is, when every per-tenant result succeeded; the counts are
  the numbers of successful and failed results and add up to \<open>totalClients\<close>. With an empty
  roster the summary is \<open>success = true\<close>, all counts 0 and no results.
\<close>

theorem syncAllClients_summary_success:
  "(syncAllClients e dt w = (Inr s, w') \<longrightarrow>
      (s_success s \<longleftrightarrow> failureCount s = 0)
      \<and> (failureCount s = 0 \<longleftrightarrow> (\<forall>r\<in>set (results s). success r))
      \<and> successCount s = length (filter (\<lambda>r. success r) (results s))
      \<and> failureCount s = length (filter (\<lambda>r. \<not> success r) (results s))
      \<and> successCount s + failureCount s = totalClients s
      \<and> totalClients s = length (results s))
   \<and> (db_fault e (step w) SelectActiveClients = None \<and> roster w = [] \<longrightarrow>
        fst (syncAllClients e dt w) =
          Inr \<lparr>s_success = True, s_date = None, totalClients = 0, successCount = 0,
               failureCount = 0, totalTime = None, results = []\<rparr>)"
proof (intro conjI impI)
  assume run: "syncAllClients e dt w = (Inr s, w')"
  then have ok: "db_fault e (step w) SelectActiveClients = None"
    using syncAllClients_results by blast
  have s: "s = (if roster w = [] then
              \<lparr>s_success = True, s_date = None, totalClients = 0, successCount = 0,
                    failureCount = 0, totalTime = None, results = []\<rparr>
            else
              \<lparr>s_success = (length (filter (\<lambda>r. \<not> success r)
                                 (fst (sync_clients_loop e dt (roster w) (tick w)))) = 0),
                    s_date = Some dt,
                    totalClients = length (roster w),
                    successCount = length (filter (\<lambda>r. success r)
                                 (fst (sync_clients_loop e dt (roster w) (tick w)))),
                    failureCount = length (filter (\<lambda>r. \<not> success r)
                                 (fst (sync_clients_loop e dt (roster w) (tick w)))),
                    totalTime = Some (Date_now e (snd (sync_clients_loop e dt (roster w) (tick w)))
                                      - Date_now e w),
                    results = fst (sync_clients_loop e dt (roster w) (tick w))\<rparr>)"
    using run by (auto simp: syncAllClients_loaded [OF ok] split: if_splits)
  show "s_success s \<longleftrightarrow> failureCount s = 0" by (simp add: s)
  show "failureCount s = 0 \<longleftrightarrow> (\<forall>r\<in>set (results s). success r)"
    by (simp add: s filter_empty_conv)
  show "successCount s = length (filter (\<lambda>r. success r) (results s))" by (simp add: s)
  show "failureCount s = length (filter (\<lambda>r. \<not> success r) (results s))" by (simp add: s)
  show "successCount s + failureCount s = totalClients s"
    using sum_length_filter_compl [of "\<lambda>r. success r" "fst (sync_clients_loop e dt (roster w) (tick w))"]
    by (simp add: s loop_results)
  show "totalClients s = length (results s)" by (simp add: s loop_results)
next
  assume "db_fault e (step w) SelectActiveClients = None \<and> roster w = []"
  then show "fst (syncAllClients e dt w) =
          Inr \<lparr>s_success = True, s_date = None, totalClients = 0, successCount = 0,
               failureCount = 0, totalTime = None, results = []\<rparr>"
    by (simp add: syncAllClients_loaded)
qed

lemma roster_three: "roster three_clients = [acme, beta]"
  by (simp add: roster_def three_clients_def empty_world_def acme_def beta_def gone_def)

theorem syncAllClients_summary_success_witness:
  "(\<exists>s w'. syncAllClients quiet_env ''2024-03-01'' three_clients = (Inr s, w')
      \<and> (s_success s \<longleftrightarrow> failureCount s = 0)
      \<and> successCount s + failureCount s = totalClients s
      \<and> totalClients s = 2)
   \<and> fst (syncAllClients quiet_env ''2024-03-01'' empty_world) =
          Inr \<lparr>s_success = True, s_date = None, totalClients = 0, successCount = 0,
               failureCount = 0, totalTime = None, results = []\<rparr>"
proof -
  have ok: "\<And>w. db_fault quiet_env (step w) SelectActiveClients = None"
    by (simp add: quiet_env_def)
  have ne: "roster three_clients \<noteq> []"
    by (simp add: roster_three)
  obtain s w' where run: "syncAllClients quiet_env ''2024-03-01'' three_clients = (Inr s, w')"
    using ne by (simp add: syncAllClients_loaded [OF ok])
  have "totalClients s = length (roster three_clients)"
    using run ne by (auto simp: syncAllClients_loaded [OF ok])
  then have two: "totalClients s = 2"
    by (simp add: roster_three)
  have empty: "roster empty_world = []"
    by (simp add: roster_def empty_world_def)
  show ?thesis
    using syncAllClients_summary_success [of quiet_env "''2024-03-01''" three_clients s w'] 
      syncAllClients_summary_success [of quiet_env "''2024-03-01''" empty_world]
      run two ok empty
    by auto
qed

subsection \<open>Isolation of one tenant's failure\<close>

lemma sync_success_returns:
  assumes "fetch_returns e dt c" and "accepts e UpsertDailyMetric"
  shows "success (fst (syncClientMetrics e c dt w))"
proof (cases "fetchDailyMetrics e (cl_ga_property_id c) dt w")
  case (Pair f w1)
  then have "\<not> isl f" using assms(1) by (auto simp: fetch_returns_def dest: spec [of _ w])
  with Pair assms(2) show ?thesis
    by (simp add: sync_success_iff [OF Pair] accepts_def)
qed



lemma metric_row_key: "dm_key (metric_row i dt m t) = (i, dt)"
  by (simp add: dm_key_def metric_row_def)

lemma sync_preserves_row:
  assumes "x \<in> set (daily_metrics w)" and "dm_client_id x \<noteq> cl_id c"
  shows "x \<in> set (daily_metrics (snd (syncClientMetrics e c dt w)))"
proof -
  obtain t where t: "daily_metrics (snd (syncClientMetrics e c dt w)) =
     (case result_metrics (fst (syncClientMetrics e c dt w)) of
        None \<Rightarrow> daily_metrics w
      | Some m \<Rightarrow> insert_on_conflict (metric_row (cl_id c) dt m t) (daily_metrics w))"
    using sync_table_step by blast
  show ?thesis
  proof (cases "result_metrics (fst (syncClientMetrics e c dt w))")
    case None
    with t assms show ?thesis by simp
  next
    case (Some m)
    have "dm_key x \<noteq> dm_key (metric_row (cl_id c) dt m t)"
      using assms(2) by (simp add: metric_row_key) (simp add: dm_key_def)
    with t Some assms(1) show ?thesis by (simp add: insert_on_conflict_other)
  qed
qed

lemma loop_preserves_row:
  assumes "x \<in> set (daily_metrics w)" and "dm_client_id x \<notin> set (map cl_id cs)"
  shows "x \<in> set (daily_metrics (snd (sync_clients_loop e dt cs w)))"
  using assms
proof (induction cs arbitrary: w)
  case Nil
  then show ?case by simp
next
  case (Cons c cs)
  have "x \<in> set (daily_metrics (sleep 500 (snd (syncClientMetrics e c dt w))))"
    using Cons.prems by (simp add: sleep_frame sync_preserves_row)
  then show ?case
    using Cons.IH Cons.prems(2) by (simp add: Let_def case_prod_beta)
qed

lemma sync_stores_row:
  assumes "success (fst (syncClientMetrics e c dt w))"
  shows "\<exists>m t. result_metrics (fst (syncClientMetrics e c dt w)) = Some m
           \<and> metric_row (cl_id c) dt m t \<in> set (daily_metrics (snd (syncClientMetrics e c dt w)))"
proof -
  obtain m where m: "result_metrics (fst (syncClientMetrics e c dt w)) = Some m"
    using assms by (auto simp: sync_result_basic(4))
  obtain t where "daily_metrics (snd (syncClientMetrics e c dt w)) =
     (case result_metrics (fst (syncClientMetrics e c dt w)) of
        None \<Rightarrow> daily_metrics w
      | Some m \<Rightarrow> insert_on_conflict (metric_row (cl_id c) dt m t) (daily_metrics w))"
    using sync_table_step by blast
  with m have "metric_row (cl_id c) dt m t \<in> set (daily_metrics (snd (syncClientMetrics e c dt w)))"
    by (simp add: insert_on_conflict_mem)
  with m show ?thesis by blast
qed

lemma loop_rows:
  assumes "distinct (map cl_id cs)"
  shows "\<forall>r\<in>set (fst (sync_clients_loop e dt cs w)). success r \<longrightarrow>
           (\<exists>m t. result_metrics r = Some m
              \<and> metric_row (clientId r) dt m t
                  \<in> set (daily_metrics (snd (sync_clients_loop e dt cs w))))"
  using assms
proof (induction cs arbitrary: w)
  case Nil
  then show ?case by simp
next
  case (Cons c cs)
  let ?r = "fst (syncClientMetrics e c dt w)"
  let ?w2 = "sleep 500 (snd (syncClientMetrics e c dt w))"
  have head: "success ?r \<longrightarrow>
           (\<exists>m t. result_metrics ?r = Some m
              \<and> metric_row (clientId ?r) dt m t
                  \<in> set (daily_metrics (snd (sync_clients_loop e dt cs ?w2))))"
  proof
    assume "success ?r"
    then obtain m t where m: "result_metrics ?r = Some m"
      and row: "metric_row (cl_id c) dt m t \<in> set (daily_metrics (snd (syncClientMetrics e c dt w)))"
      using sync_stores_row by blast
    have "dm_client_id (metric_row (cl_id c) dt m t) \<notin> set (map cl_id cs)"
      using Cons.prems by (simp add: metric_row_def)
    then have "metric_row (cl_id c) dt m t \<in> set (daily_metrics (snd (sync_clients_loop e dt cs ?w2)))"
      using row by (intro loop_preserves_row) (simp_all add: sleep_frame)
    with m show "\<exists>m t. result_metrics ?r = Some m
              \<and> metric_row (clientId ?r) dt m t
                  \<in> set (daily_metrics (snd (sync_clients_loop e dt cs ?w2)))"
      by (auto simp: sync_result_basic)
  qed
  have tail: "\<forall>r\<in>set (fst (sync_clients_loop e dt cs ?w2)). success r \<longrightarrow>
           (\<exists>m t. result_metrics r = Some m
              \<and> metric_row (clientId r) dt m t
                  \<in> set (daily_metrics (snd (sync_clients_loop e dt cs ?w2))))"
    using Cons.IH Cons.prems by simp
  show ?case
    using head tail by (simp add: Let_def case_prod_beta)
qed

lemma roster_distinct:
  assumes "distinct (map cl_id (clients w))"
  shows "distinct (map cl_id (roster w))"
proof -
  have "distinct (map cl_id (filter cl_is_active (clients w)))"
    using assms by (rule distinct_map_filter)
  then show ?thesis
    by (simp add: roster_def distinct_map)
qed








subsection \<open>The audit write is best effort\<close>

lemma fetch_step:
  "step (snd (fetchDailyMetrics e p dt w)) =
     (if isl (runReport e (step w) (total_request p dt)) then Suc (step w) else Suc (Suc (step w)))"
  by (simp add: fetchDailyMetrics_def ga_runReport_def fetch_failed_def tick_def
        console_error_def Let_def split: sum.splits)

lemma fetch_agree:
  assumes "runReport e2 = runReport e1" and "rounding e2 = rounding e1" and "step w2 = step w1"
  shows "fst (fetchDailyMetrics e2 p dt w2) = fst (fetchDailyMetrics e1 p dt w1)"
    and "step (snd (fetchDailyMetrics e2 p dt w2)) = step (snd (fetchDailyMetrics e1 p dt w1))"
  using assms
  by (simp_all add: fetchDailyMetrics_def ga_runReport_def fetch_failed_def tick_def
        console_error_def Let_def split: sum.splits)

lemma sync_step:
  "step (snd (syncClientMetrics e c dt w)) =
     (case fst (fetchDailyMetrics e (cl_ga_property_id c) dt w) of
        Inl err \<Rightarrow> Suc (step (snd (fetchDailyMetrics e (cl_ga_property_id c) dt w)))
      | Inr m \<Rightarrow> Suc (Suc (step (snd (fetchDailyMetrics e (cl_ga_property_id c) dt w)))))"
  by (rule syncClientMetrics_cases [where e=e and c=c and dt=dt and w=w])
     (simp_all add: sync_catch_frame logSync_frame upsert_frame)

lemma sync_table:
  "daily_metrics (snd (syncClientMetrics e c dt w)) =
     (case fetchDailyMetrics e (cl_ga_property_id c) dt w of
        (Inl err, w1) \<Rightarrow> daily_metrics w
      | (Inr m, w1) \<Rightarrow>
          if db_fault e (step w1) UpsertDailyMetric = None
          then insert_on_conflict (metric_row (cl_id c) dt m (db_now e (step w1))) (daily_metrics w)
          else daily_metrics w)"
  by (rule syncClientMetrics_cases [where e=e and c=c and dt=dt and w=w])
     (auto dest!: fetch_frameD simp: sync_catch_frame logSync_frame upsert_table)

lemma sync_result:
  "fst (syncClientMetrics e c dt w) =
     (case fetchDailyMetrics e (cl_ga_property_id c) dt w of
        (Inl err, w1) \<Rightarrow>
          \<lparr>success = False, clientId = cl_id c, clientName = cl_name c, result_date = dt,
            result_metrics = None, result_error = Some (message err),
            executionTime = date_now e (step w1) - date_now e (step w)\<rparr>
      | (Inr m, w1) \<Rightarrow>
          (case db_fault e (step w1) UpsertDailyMetric of
             Some err \<Rightarrow>
               \<lparr>success = False, clientId = cl_id c, clientName = cl_name c, result_date = dt,
                 result_metrics = None, result_error = Some (message err),
                 executionTime = date_now e (Suc (step w1)) - date_now e (step w)\<rparr>
           | None \<Rightarrow>
               \<lparr>success = True, clientId = cl_id c, clientName = cl_name c, result_date = dt,
                 result_metrics = Some m, result_error = None,
                 executionTime = date_now e (Suc (step w1)) - date_now e (step w)\<rparr>))"
  by (rule syncClientMetrics_cases [where e=e and c=c and dt=dt and w=w])
     (simp_all add: sync_catch_fst Date_now_def upsert_frame)

lemma sync_agree:
  assumes e: "same_but_audit e1 e2" and w: "same_store w1 w2"
  shows "fst (syncClientMetrics e2 c dt w2) = fst (syncClientMetrics e1 c dt w1)"
    and "same_store (snd (syncClientMetrics e1 c dt w1)) (snd (syncClientMetrics e2 c dt w2))"
proof -
  let ?p = "cl_ga_property_id c"
  obtain f1 v1 where F1: "fetchDailyMetrics e1 ?p dt w1 = (f1, v1)"
    by (cases "fetchDailyMetrics e1 ?p dt w1")
  obtain f2 v2 where F2: "fetchDailyMetrics e2 ?p dt w2 = (f2, v2)"
    by (cases "fetchDailyMetrics e2 ?p dt w2")
  define n where "n = step v1"
  have ff: "f2 = f1" and ss: "step v2 = n"
    using e w fetch_agree [of e2 e1 w2 w1 ?p dt] F1 F2
    by (simp_all add: same_but_audit_def same_store_def n_def)
  have ss1: "step v1 = n" by (simp add: n_def)
  have up: "db_fault e2 n UpsertDailyMetric = db_fault e1 n UpsertDailyMetric"
    using e by (simp add: same_but_audit_def)
  have clk: "date_now e2 = date_now e1" "db_now e2 = db_now e1"
    using e by (simp_all add: same_but_audit_def)
  have st: "step w2 = step w1" "daily_metrics w2 = daily_metrics w1" "clients w2 = clients w1"
    using w by (simp_all add: same_store_def)
  have r1: "fst (syncClientMetrics e1 c dt w1) =
     (case f1 of
        Inl err \<Rightarrow>
          \<lparr>success = False, clientId = cl_id c, clientName = cl_name c, result_date = dt,
            result_metrics = None, result_error = Some (message err),
            executionTime = date_now e1 (n) - date_now e1 (step w1)\<rparr>
      | Inr m \<Rightarrow>
          (case db_fault e1 (n) UpsertDailyMetric of
             Some err \<Rightarrow>
               \<lparr>success = False, clientId = cl_id c, clientName = cl_name c, result_date = dt,
                 result_metrics = None, result_error = Some (message err),
                 executionTime = date_now e1 (Suc (n)) - date_now e1 (step w1)\<rparr>
           | None \<Rightarrow>
               \<lparr>success = True, clientId = cl_id c, clientName = cl_name c, result_date = dt,
                 result_metrics = Some m, result_error = None,
                 executionTime = date_now e1 (Suc (n)) - date_now e1 (step w1)\<rparr>))"
    by (simp add: sync_result F1 ss1 split: sum.split option.split)
  have r2: "fst (syncClientMetrics e2 c dt w2) =
     (case f1 of
        Inl err \<Rightarrow>
          \<lparr>success = False, clientId = cl_id c, clientName = cl_name c, result_date = dt,
            result_metrics = None, result_error = Some (message err),
            executionTime = date_now e1 (n) - date_now e1 (step w1)\<rparr>
      | Inr m \<Rightarrow>
          (case db_fault e1 (n) UpsertDailyMetric of
             Some err \<Rightarrow>
               \<lparr>success = False, clientId = cl_id c, clientName = cl_name c, result_date = dt,
                 result_metrics = None, result_error = Some (message err),
                 executionTime = date_now e1 (Suc (n)) - date_now e1 (step w1)\<rparr>
           | None \<Rightarrow>
               \<lparr>success = True, clientId = cl_id c, clientName = cl_name c, result_date = dt,
                 result_metrics = Some m, result_error = None,
                 executionTime = date_now e1 (Suc (n)) - date_now e1 (step w1)\<rparr>))"
    by (simp add: sync_result F2 ff ss up clk st split: sum.split option.split)
  show "fst (syncClientMetrics e2 c dt w2) = fst (syncClientMetrics e1 c dt w1)"
    unfolding r1 r2 ..
  have t1: "daily_metrics (snd (syncClientMetrics e1 c dt w1)) =
      (case f1 of Inl err \<Rightarrow> daily_metrics w1
       | Inr m \<Rightarrow>
          if db_fault e1 (n) UpsertDailyMetric = None
          then insert_on_conflict (metric_row (cl_id c) dt m (db_now e1 (n))) (daily_metrics w1)
          else daily_metrics w1)"
    by (auto simp: sync_table F1 ss1 split: sum.split)
  have t2: "daily_metrics (snd (syncClientMetrics e2 c dt w2)) =
      (case f1 of Inl err \<Rightarrow> daily_metrics w1
       | Inr m \<Rightarrow>
          if db_fault e1 (n) UpsertDailyMetric = None
          then insert_on_conflict (metric_row (cl_id c) dt m (db_now e1 (n))) (daily_metrics w1)
          else daily_metrics w1)"
    by (auto simp: sync_table F2 ff ss up clk st split: sum.split)
  have s1: "step (snd (syncClientMetrics e1 c dt w1)) =
      (case f1 of Inl err \<Rightarrow> Suc (n) | Inr m \<Rightarrow> Suc (Suc (n)))"
    by (simp add: sync_step F1 ss1 split: sum.split option.split)
  have s2: "step (snd (syncClientMetrics e2 c dt w2)) =
      (case f1 of Inl err \<Rightarrow> Suc (n) | Inr m \<Rightarrow> Suc (Suc (n)))"
    by (simp add: sync_step F2 ff ss split: sum.split option.split)
  show "same_store (snd (syncClientMetrics e1 c dt w1)) (snd (syncClientMetrics e2 c dt w2))"
    unfolding same_store_def t1 t2 s1 s2 sync_clients_frame st by simp
qed


lemma loop_agree:
  assumes e: "same_but_audit e1 e2" and w: "same_store w1 w2"
  shows "fst (sync_clients_loop e2 dt cs w2) = fst (sync_clients_loop e1 dt cs w1)
         \<and> same_store (snd (sync_clients_loop e1 dt cs w1)) (snd (sync_clients_loop e2 dt cs w2))"
  using w
proof (induction cs arbitrary: w1 w2)
  case Nil
  then show ?case by simp
next
  case (Cons c cs)
  have "same_store (sleep 500 (snd (syncClientMetrics e1 c dt w1)))
          (sleep 500 (snd (syncClientMetrics e2 c dt w2)))"
    using sync_agree(2) [OF e Cons.prems, of c dt]
    by (simp add: same_store_def sleep_def tick_def)
  from Cons.IH [OF this] sync_agree(1) [OF e Cons.prems, of c dt]
  show ?case by (simp add: Let_def case_prod_beta)
qed

lemma syncAllClients_agree:
  assumes e: "same_but_audit e1 e2" and w: "same_store w1 w2"
  shows "fst (syncAllClients e2 dt w2) = fst (syncAllClients e1 dt w1)"
    and "daily_metrics (snd (syncAllClients e2 dt w2)) = daily_metrics (snd (syncAllClients e1 dt w1))"
proof -
  have st: "step w2 = step w1" "daily_metrics w2 = daily_metrics w1" "clients w2 = clients w1"
    using w by (simp_all add: same_store_def)
  have q: "db_fault e2 (step w2) SelectActiveClients = db_fault e1 (step w1) SelectActiveClients"
    using e st by (simp add: same_but_audit_def)
  have clk: "date_now e2 = date_now e1" using e by (simp add: same_but_audit_def)
  have r: "roster w2 = roster w1" using st by (simp add: roster_def)
  have t: "same_store (tick w1) (tick w2)" using w by (simp add: same_store_def tick_def)
  note l = loop_agree [OF e t, of dt "roster w1"]
  show "fst (syncAllClients e2 dt w2) = fst (syncAllClients e1 dt w1)"
  proof (cases "db_fault e1 (step w1) SelectActiveClients")
    case None
    then show ?thesis
      using q l by (simp add: syncAllClients_loaded r Date_now_def clk st same_store_def)
  next
    case (Some err)
    then show ?thesis
      using q by (simp add: syncAllClients_def query_def Let_def)
  qed
  show "daily_metrics (snd (syncAllClients e2 dt w2)) = daily_metrics (snd (syncAllClients e1 dt w1))"
  proof (cases "db_fault e1 (step w1) SelectActiveClients")
    case None
    then show ?thesis
      using q l by (simp add: syncAllClients_loaded r st same_store_def tick_def)
  next
    case (Some err)
    then show ?thesis
      using q st by (simp add: syncAllClients_def query_def Let_def console_error_def tick_def)
  qed
qed

lemma logSync_rejected:
  assumes "db_fault e (step w) InsertSyncLog = Some err"
  shows "logSync e i d st n msg t w =
           w\<lparr>console := console w @ [DatabaseQueryError err, FailedToLogSync err],
             step := Suc (step w)\<rparr>"
  using assms by (simp add: logSync_def query_def console_error_def tick_def)

text \<open>
  Claim C8. A failure of the audit insert never changes the outcome of the attempt it
  documents. Run the sync in two environments that differ at most in whether the store
  takes the audit inserts: the per-tenant result (success or failure, metrics, error,
  elapsed time) is the same, the metrics table afterwards is the same, and so are the batch
  summary and the table after a whole batch. A rejected audit insert is only logged: the
  store's error and \<open>Failed to log sync\<close> go to the console, no table changes, nothing is
  thrown.
\<close>

theorem audit_write_best_effort:
  "(same_but_audit e1 e2 \<and> same_store w1 w2 \<longrightarrow>
      fst (syncClientMetrics e2 c dt w2) = fst (syncClientMetrics e1 c dt w1)
      \<and> daily_metrics (snd (syncClientMetrics e2 c dt w2)) =
          daily_metrics (snd (syncClientMetrics e1 c dt w1))
      \<and> fst (syncAllClients e2 dt w2) = fst (syncAllClients e1 dt w1)
      \<and> daily_metrics (snd (syncAllClients e2 dt w2)) = daily_metrics (snd (syncAllClients e1 dt w1)))
   \<and> (db_fault e (step w) InsertSyncLog = Some err \<longrightarrow>
        logSync e i d st n msg t w =
          w\<lparr>console := console w @ [DatabaseQueryError err, FailedToLogSync err],
            step := Suc (step w)\<rparr>)"
proof (intro conjI impI)
  assume h: "same_but_audit e1 e2 \<and> same_store w1 w2"
  show "fst (syncClientMetrics e2 c dt w2) = fst (syncClientMetrics e1 c dt w1)"
    using h sync_agree(1) by blast
  show "daily_metrics (snd (syncClientMetrics e2 c dt w2)) =
          daily_metrics (snd (syncClientMetrics e1 c dt w1))"
    using h sync_agree(2) [of e1 e2 w1 w2 c dt] by (simp add: same_store_def)
  show "fst (syncAllClients e2 dt w2) = fst (syncAllClients e1 dt w1)"
    using h syncAllClients_agree(1) by blast
  show "daily_metrics (snd (syncAllClients e2 dt w2)) = daily_metrics (snd (syncAllClients e1 dt w1))"
    using h syncAllClients_agree(2) by blast
next
  assume "db_fault e (step w) InsertSyncLog = Some err"
  then show "logSync e i d st n msg t w =
          w\<lparr>console := console w @ [DatabaseQueryError err, FailedToLogSync err],
            step := Suc (step w)\<rparr>"
    by (rule logSync_rejected)
qed

theorem audit_write_best_effort_witness:
  "fst (syncClientMetrics audit_down_env acme ''2024-03-01'' three_clients) =
     fst (syncClientMetrics quiet_env acme ''2024-03-01'' three_clients)
   \<and> success (fst (syncClientMetrics audit_down_env acme ''2024-03-01'' three_clients))
   \<and> sync_logs (snd (syncClientMetrics audit_down_env acme ''2024-03-01'' three_clients)) = []
   \<and> sync_logs (snd (syncClientMetrics quiet_env acme ''2024-03-01'' three_clients)) \<noteq> []
   \<and> fst (syncAllClients audit_down_env ''2024-03-01'' three_clients) =
       fst (syncAllClients quiet_env ''2024-03-01'' three_clients)
   \<and> logSync audit_down_env 1 ''2024-03-01'' ''success'' 1 None 3 three_clients =
       three_clients\<lparr>console :=
           [DatabaseQueryError \<lparr>code = Some ''ECONNRESET'', message = ''connection reset''\<rparr>,
            FailedToLogSync \<lparr>code = Some ''ECONNRESET'', message = ''connection reset''\<rparr>],
         step := 1\<rparr>"
proof -
  have e: "same_but_audit quiet_env audit_down_env"
    by (simp add: same_but_audit_def audit_down_env_def quiet_env_def)
  have w: "same_store three_clients three_clients"
    by (simp add: same_store_def)
  have f: "db_fault audit_down_env (step three_clients) InsertSyncLog =
             Some \<lparr>code = Some ''ECONNRESET'', message = ''connection reset''\<rparr>"
    by (simp add: audit_down_env_def)
  have ok: "success (fst (syncClientMetrics quiet_env acme ''2024-03-01'' three_clients))"
    by (intro sync_success_returns)
       (simp_all add: accepts_def quiet_env_def fetch_returns_def fetchDailyMetrics_def
          ga_runReport_def parseMetricsResponse_def parseOrganicSessions_def Let_def)
  have l1: "sync_logs (snd (syncClientMetrics audit_down_env acme ''2024-03-01'' three_clients)) = []"
    using sync_logs_step [of audit_down_env acme "''2024-03-01''" three_clients]
    by (simp add: audit_down_env_def three_clients_def empty_world_def)
  have l2: "sync_logs (snd (syncClientMetrics quiet_env acme ''2024-03-01'' three_clients)) \<noteq> []"
    using sync_logs_step [of quiet_env acme "''2024-03-01''" three_clients]
    by (simp add: quiet_env_def)
  note A = audit_write_best_effort [of quiet_env audit_down_env three_clients three_clients
        acme "''2024-03-01''" audit_down_env three_clients
        "\<lparr>code = Some ''ECONNRESET'', message = ''connection reset''\<rparr>"
        1 "''2024-03-01''" "''success''" 1 None 3]
  from A e w have a1: "fst (syncClientMetrics audit_down_env acme ''2024-03-01'' three_clients) =
     fst (syncClientMetrics quiet_env acme ''2024-03-01'' three_clients)"
    by blast
  from A e w have a2: "fst (syncAllClients audit_down_env ''2024-03-01'' three_clients) =
       fst (syncAllClients quiet_env ''2024-03-01'' three_clients)"
    by blast
  from A f have "logSync audit_down_env 1 ''2024-03-01'' ''success'' 1 None 3 three_clients =
       three_clients\<lparr>console := console three_clients @
           [DatabaseQueryError \<lparr>code = Some ''ECONNRESET'', message = ''connection reset''\<rparr>,
            FailedToLogSync \<lparr>code = Some ''ECONNRESET'', message = ''connection reset''\<rparr>],
         step := Suc (step three_clients)\<rparr>"
    by blast
  then have a3: "logSync audit_down_env 1 ''2024-03-01'' ''success'' 1 None 3 three_clients =
       three_clients\<lparr>console :=
           [DatabaseQueryError \<lparr>code = Some ''ECONNRESET'', message = ''connection reset''\<rparr>,
            FailedToLogSync \<lparr>code = Some ''ECONNRESET'', message = ''connection reset''\<rparr>],
         step := 1\<rparr>"
    by (simp add: three_clients_def empty_world_def)
  from a1 ok have ok': "success (fst (syncClientMetrics audit_down_env acme ''2024-03-01'' three_clients))"
    by simp
  from a1 ok' l1 l2 a2 a3 show ?thesis by blast
qed

subsection \<open>A day without traffic\<close>

lemma insert_on_conflict_unique:
  assumes "x \<in> set (insert_on_conflict r tbl)" and "dm_key x = dm_key r"
  shows "x = r"
  using assms
  by (auto simp: insert_on_conflict_def do_update_set_same_key image_iff split: if_splits)

lemma parse_no_rows:
  assumes "rows r = None \<or> rows r = Some []"
  shows "parseMetricsResponse fl r =
           Inr \<lparr>sessions = 0, users = 0, newUsers = 0, pageviews = 0,
                avgSessionDuration = Fin 0, bounceRate = Fin 0\<rparr>"
    and "parseOrganicSessions r = Inr 0"
  using assms by (auto simp: parseMetricsResponse_def parseOrganicSessions_def)

lemma fetch_no_rows:
  assumes "runReport e (step w) (total_request p dt) = Inr r1"
      and "rows r1 = None \<or> rows r1 = Some []"
      and "runReport e (Suc (step w)) (organic_request p dt) = Inr r2"
      and "rows r2 = None \<or> rows r2 = Some []"
  shows "fetchDailyMetrics e p dt w =
           (Inr \<lparr>sessions = 0, users = 0, newUsers = 0, pageviews = 0,
                 avgSessionDuration = Fin 0, bounceRate = Fin 0,
                 date = dt, organicSessions = 0\<rparr>,
            w\<lparr>step := Suc (Suc (step w))\<rparr>)"
  using assms(1,3) parse_no_rows [OF assms(2)] parse_no_rows(2) [OF assms(4)]
  by (simp add: fetchDailyMetrics_def ga_runReport_def tick_def Let_def)

text \<open>
  Claim C3. A provider response with no rows (no \<open>rows\<close> member, or an empty one)
  normalizes to metrics that are all 0. When both reports of \<open>fetchDailyMetrics\<close> come back
  without rows, the fetch returns the all-zero metrics for the date; when the store then
  takes the upsert, the sync of that tenant and date succeeds with those metrics, and the
  metrics table holds the all-zero row for the tenant and date, and no other row for them.
\<close>

theorem zero_traffic:
  "(rows r = None \<or> rows r = Some [] \<longrightarrow>
      parseMetricsResponse fl r =
        Inr \<lparr>sessions = 0, users = 0, newUsers = 0, pageviews = 0,
             avgSessionDuration = Fin 0, bounceRate = Fin 0\<rparr>
      \<and> parseOrganicSessions r = Inr 0)
   \<and> (runReport e (step w) (total_request (cl_ga_property_id c) dt) = Inr r1
       \<and> (rows r1 = None \<or> rows r1 = Some [])
       \<and> runReport e (Suc (step w)) (organic_request (cl_ga_property_id c) dt) = Inr r2
       \<and> (rows r2 = None \<or> rows r2 = Some []) \<longrightarrow>
       fst (fetchDailyMetrics e (cl_ga_property_id c) dt w) =
         Inr \<lparr>sessions = 0, users = 0, newUsers = 0, pageviews = 0,
              avgSessionDuration = Fin 0, bounceRate = Fin 0,
              date = dt, organicSessions = 0\<rparr>
       \<and> (db_fault e (Suc (Suc (step w))) UpsertDailyMetric = None \<longrightarrow>
            success (fst (syncClientMetrics e c dt w))
            \<and> result_metrics (fst (syncClientMetrics e c dt w)) =
                Some \<lparr>sessions = 0, users = 0, newUsers = 0, pageviews = 0,
                      avgSessionDuration = Fin 0, bounceRate = Fin 0,
                      date = dt, organicSessions = 0\<rparr>
            \<and> \<lparr>dm_client_id = cl_id c, dm_date = dt, dm_sessions = 0, dm_users = 0,
                dm_new_users = 0, dm_pageviews = 0, dm_avg_session_duration = Fin 0,
                dm_bounce_rate = Fin 0, dm_organic_sessions = 0,
                dm_synced_at = db_now e (Suc (Suc (step w)))\<rparr>
                  \<in> set (daily_metrics (snd (syncClientMetrics e c dt w)))
            \<and> (\<forall>x\<in>set (daily_metrics (snd (syncClientMetrics e c dt w))).
                  dm_key x = (cl_id c, dt) \<longrightarrow>
                  x = \<lparr>dm_client_id = cl_id c, dm_date = dt, dm_sessions = 0, dm_users = 0,
                        dm_new_users = 0, dm_pageviews = 0, dm_avg_session_duration = Fin 0,
                        dm_bounce_rate = Fin 0, dm_organic_sessions = 0,
                        dm_synced_at = db_now e (Suc (Suc (step w)))\<rparr>)))"
proof (intro conjI impI)
  assume "rows r = None \<or> rows r = Some []"
  then show "parseMetricsResponse fl r =
        Inr \<lparr>sessions = 0, users = 0, newUsers = 0, pageviews = 0,
             avgSessionDuration = Fin 0, bounceRate = Fin 0\<rparr>"
    and "parseOrganicSessions r = Inr 0"
    by (rule parse_no_rows)+
next
  let ?z = "\<lparr>sessions = 0, users = 0, newUsers = 0, pageviews = 0,
              avgSessionDuration = Fin 0, bounceRate = Fin 0,
              date = dt, organicSessions = 0\<rparr>"
  let ?row = "\<lparr>dm_client_id = cl_id c, dm_date = dt, dm_sessions = 0, dm_users = 0,
                dm_new_users = 0, dm_pageviews = 0, dm_avg_session_duration = Fin 0,
                dm_bounce_rate = Fin 0, dm_organic_sessions = 0,
                dm_synced_at = db_now e (Suc (Suc (step w)))\<rparr>"
  assume h: "runReport e (step w) (total_request (cl_ga_property_id c) dt) = Inr r1
       \<and> (rows r1 = None \<or> rows r1 = Some [])
       \<and> runReport e (Suc (step w)) (organic_request (cl_ga_property_id c) dt) = Inr r2
       \<and> (rows r2 = None \<or> rows r2 = Some [])"
  then have F: "fetchDailyMetrics e (cl_ga_property_id c) dt w = (Inr ?z, w\<lparr>step := Suc (Suc (step w))\<rparr>)"
    by (intro fetch_no_rows) blast+
  then show "fst (fetchDailyMetrics e (cl_ga_property_id c) dt w) = Inr ?z"
    by simp
  assume up: "db_fault e (Suc (Suc (step w))) UpsertDailyMetric = None"
  have r: "fst (syncClientMetrics e c dt w) =
             \<lparr>success = True, clientId = cl_id c, clientName = cl_name c, result_date = dt,
               result_metrics = Some ?z, result_error = None,
               executionTime = date_now e (Suc (Suc (Suc (step w)))) - date_now e (step w)\<rparr>"
    using up by (simp add: sync_result F)
  have t: "daily_metrics (snd (syncClientMetrics e c dt w)) = insert_on_conflict ?row (daily_metrics w)"
    using up by (simp add: sync_table F metric_row_def)
  show "success (fst (syncClientMetrics e c dt w))" by (simp add: r)
  show "result_metrics (fst (syncClientMetrics e c dt w)) = Some ?z" by (simp add: r)
  show "?row \<in> set (daily_metrics (snd (syncClientMetrics e c dt w)))"
    unfolding t by (rule insert_on_conflict_mem)
  show "\<forall>x\<in>set (daily_metrics (snd (syncClientMetrics e c dt w))).
                  dm_key x = (cl_id c, dt) \<longrightarrow> x = ?row"
    unfolding t by (auto intro: insert_on_conflict_unique simp: dm_key_def)
qed

theorem zero_traffic_witness:
  "fst (fetchDailyMetrics quiet_env ''111'' ''2024-03-01'' three_clients) =
         Inr \<lparr>sessions = 0, users = 0, newUsers = 0, pageviews = 0,
              avgSessionDuration = Fin 0, bounceRate = Fin 0,
              date = ''2024-03-01'', organicSessions = 0\<rparr>
   \<and> success (fst (syncClientMetrics quiet_env acme ''2024-03-01'' three_clients))
   \<and> \<lparr>dm_client_id = 1, dm_date = ''2024-03-01'', dm_sessions = 0, dm_users = 0,
        dm_new_users = 0, dm_pageviews = 0, dm_avg_session_duration = Fin 0,
        dm_bounce_rate = Fin 0, dm_organic_sessions = 0, dm_synced_at = 2\<rparr>
        \<in> set (daily_metrics (snd (syncClientMetrics quiet_env acme ''2024-03-01'' three_clients)))"
  using zero_traffic [of "\<lparr>rows = None\<rparr>" "\<lambda>x. x" quiet_env three_clients acme "''2024-03-01''"
      "\<lparr>rows = None\<rparr>" "\<lparr>rows = None\<rparr>"]
  by (simp add: quiet_env_def acme_def three_clients_def empty_world_def)

subsection \<open>Running the batch again\<close>

lemma insert_on_conflict_present:
  assumes "dm_key r \<in> set (map dm_key tbl)"
  shows "insert_on_conflict r tbl = map (\<lambda>y. if dm_key y = dm_key r then r else y) tbl"
proof -
  have "map (\<lambda>x. if dm_key x = dm_key r then do_update_set x r else x) tbl =
        map (\<lambda>y. if dm_key y = dm_key r then r else y) tbl"
    by (rule map_cong) (auto simp: do_update_set_same_key)
  with assms show ?thesis by (simp add: insert_on_conflict_def)
qed

lemma sync_keys:
  "map dm_key (daily_metrics (snd (syncClientMetrics e c dt w))) =
     (if success (fst (syncClientMetrics e c dt w))
         \<and> (cl_id c, dt) \<notin> set (map dm_key (daily_metrics w))
      then map dm_key (daily_metrics w) @ [(cl_id c, dt)]
      else map dm_key (daily_metrics w))"
proof -
  obtain t where t: "daily_metrics (snd (syncClientMetrics e c dt w)) =
     (case result_metrics (fst (syncClientMetrics e c dt w)) of
        None \<Rightarrow> daily_metrics w
      | Some m \<Rightarrow> insert_on_conflict (metric_row (cl_id c) dt m t) (daily_metrics w))"
    using sync_table_step by blast
  show ?thesis
    unfolding t
    by (cases "result_metrics (fst (syncClientMetrics e c dt w))")
       (simp_all add: sync_result_basic(4) insert_on_conflict_keys metric_row_key)
qed

lemma loop_keys_unchanged:
  assumes "\<forall>r\<in>set (fst (sync_clients_loop e dt cs w)). success r \<longrightarrow>
             (clientId r, dt) \<in> set (map dm_key (daily_metrics w))"
  shows "map dm_key (daily_metrics (snd (sync_clients_loop e dt cs w))) =
           map dm_key (daily_metrics w)"
  using assms
proof (induction cs arbitrary: w)
  case Nil
  then show ?case by simp
next
  case (Cons c cs)
  let ?r = "fst (syncClientMetrics e c dt w)"
  let ?w2 = "sleep 500 (snd (syncClientMetrics e c dt w))"
  have head: "success ?r \<longrightarrow> (cl_id c, dt) \<in> set (map dm_key (daily_metrics w))"
    using Cons.prems by (simp add: Let_def case_prod_beta sync_result_basic)
  then have keys: "map dm_key (daily_metrics ?w2) = map dm_key (daily_metrics w)"
    by (auto simp: sleep_frame sync_keys)
  have "\<forall>r\<in>set (fst (sync_clients_loop e dt cs ?w2)). success r \<longrightarrow>
             (clientId r, dt) \<in> set (map dm_key (daily_metrics ?w2))"
    using Cons.prems unfolding keys by (simp add: Let_def case_prod_beta)
  from Cons.IH [OF this] keys show ?case
    by (simp add: Let_def case_prod_beta)
qed

lemma sync_overwrites:
  assumes F: "fetchDailyMetrics e (cl_ga_property_id c) dt w = (Inr m, v)"
      and up: "db_fault e (step v) UpsertDailyMetric = None"
      and x: "x \<in> set (daily_metrics w)" "dm_key x = (cl_id c, dt)"
  shows "daily_metrics (snd (syncClientMetrics e c dt w)) =
           map (\<lambda>y. if dm_key y = (cl_id c, dt)
                    then metric_row (cl_id c) dt m (db_now e (step v)) else y)
             (daily_metrics w)"
proof -
  have "dm_key (metric_row (cl_id c) dt m (db_now e (step v))) \<in> set (map dm_key (daily_metrics w))"
    using x by (simp add: metric_row_key image_iff) (metis)
  from insert_on_conflict_present [OF this] up show ?thesis
    by (simp add: sync_table F metric_row_key)
qed

lemma syncAllClients_clients:
  assumes "syncAllClients e dt w = (Inr s, w')"
  shows "clients w' = clients w"
  using syncAllClients_results [OF assms] by (simp add: loop_clients tick_def)

lemma syncAllClients_rows:
  assumes run: "syncAllClients e dt w = (Inr s, w')"
      and ids: "distinct (map cl_id (clients w))"
  shows "\<forall>r\<in>set (results s). success r \<longrightarrow>
           (\<exists>m t. result_metrics r = Some m
              \<and> metric_row (clientId r) dt m t \<in> set (daily_metrics w'))"
  using syncAllClients_results [OF run] loop_rows [OF roster_distinct [OF ids], of e dt "tick w"]
  by simp

lemma syncAllClients_distinct:
  assumes run: "syncAllClients e dt w = (Inr s, w')"
      and keys: "distinct (map dm_key (daily_metrics w))"
  shows "distinct (map dm_key (daily_metrics w'))"
proof -
  have "distinct (map dm_key (daily_metrics (tick w)))"
    using keys by (simp add: tick_def)
  from loop_table_distinct [OF this] syncAllClients_results [OF run] show ?thesis
    by simp
qed

lemma quiet_env_returns: "fetch_returns quiet_env dt c"
  by (simp add: fetch_returns_def fetchDailyMetrics_def ga_runReport_def quiet_env_def
        parseMetricsResponse_def parseOrganicSessions_def Let_def)

lemma late_data_env_returns: "fetch_returns late_data_env dt c"
  by (simp add: fetch_returns_def fetchDailyMetrics_def ga_runReport_def late_data_env_def
        quiet_env_def parseMetricsResponse_def parseOrganicSessions_def Let_def tick_def
        total_request_def organic_request_def)

lemma loop_all_success:
  assumes "accepts e UpsertDailyMetric" and "\<forall>c\<in>set cs. fetch_returns e dt c"
  shows "\<forall>r\<in>set (fst (sync_clients_loop e dt cs w)). success r"
  using assms(2)
  by (induction cs arbitrary: w)
     (simp_all add: Let_def case_prod_beta sync_success_returns [OF _ assms(1)])

lemma loop_append:
  "sync_clients_loop e dt (xs @ ys) w =
     (fst (sync_clients_loop e dt xs w) @
        fst (sync_clients_loop e dt ys (snd (sync_clients_loop e dt xs w))),
      snd (sync_clients_loop e dt ys (snd (sync_clients_loop e dt xs w))))"
  by (induction xs arbitrary: w) (simp_all add: Let_def case_prod_beta)

text \<open>
  The tenant that the loop reaches after the tenants \<open>pre\<close>: when the provider answers and
  the store takes the upsert, the result at that place reports the metrics fetched and the
  table holds their row, stamped with the store's clock at the upsert, when the loop ends.
\<close>

lemma loop_writes_row:
  assumes ids: "distinct (map cl_id (pre @ k # post))"
      and F: "fetchDailyMetrics e (cl_ga_property_id k) dt (snd (sync_clients_loop e dt pre w))
                = (Inr mk, vk)"
      and up: "db_fault e (step vk) UpsertDailyMetric = None"
  shows "success (fst (sync_clients_loop e dt (pre @ k # post) w) ! length pre)"
    and "clientId (fst (sync_clients_loop e dt (pre @ k # post) w) ! length pre) = cl_id k"
    and "result_metrics (fst (sync_clients_loop e dt (pre @ k # post) w) ! length pre) = Some mk"
    and "metric_row (cl_id k) dt mk (db_now e (step vk))
           \<in> set (daily_metrics (snd (sync_clients_loop e dt (pre @ k # post) w)))"
proof -
  let ?v = "snd (sync_clients_loop e dt pre w)"
  let ?u = "sleep 500 (snd (syncClientMetrics e k dt ?v))"
  have nth: "fst (sync_clients_loop e dt (pre @ k # post) w) ! length pre =
               fst (syncClientMetrics e k dt ?v)"
    by (simp add: loop_append Let_def case_prod_beta nth_append loop_results(3))
  have res: "fst (syncClientMetrics e k dt ?v) =
               \<lparr>success = True, clientId = cl_id k, clientName = cl_name k, result_date = dt,
                 result_metrics = Some mk, result_error = None,
                 executionTime = date_now e (Suc (step vk)) - date_now e (step ?v)\<rparr>"
    by (simp add: sync_result F up)
  show "success (fst (sync_clients_loop e dt (pre @ k # post) w) ! length pre)"
    and "clientId (fst (sync_clients_loop e dt (pre @ k # post) w) ! length pre) = cl_id k"
    and "result_metrics (fst (sync_clients_loop e dt (pre @ k # post) w) ! length pre) = Some mk"
    by (simp_all add: nth res)
  have "daily_metrics (snd (syncClientMetrics e k dt ?v)) =
          insert_on_conflict (metric_row (cl_id k) dt mk (db_now e (step vk))) (daily_metrics ?v)"
    by (simp add: sync_table F up)
  then have "metric_row (cl_id k) dt mk (db_now e (step vk)) \<in> set (daily_metrics ?u)"
    by (simp add: sleep_frame insert_on_conflict_mem)
  moreover have "dm_client_id (metric_row (cl_id k) dt mk (db_now e (step vk)))
                   \<notin> set (map cl_id post)"
    using ids by (auto simp: metric_row_def)
  ultimately have "metric_row (cl_id k) dt mk (db_now e (step vk))
                     \<in> set (daily_metrics (snd (sync_clients_loop e dt post ?u)))"
    by (rule loop_preserves_row)
  then show "metric_row (cl_id k) dt mk (db_now e (step vk))
           \<in> set (daily_metrics (snd (sync_clients_loop e dt (pre @ k # post) w)))"
    by (simp add: loop_append Let_def case_prod_beta)
qed

text \<open>
  Claim C2. Running \<open>syncAllClients\<close> for the same date twice in a row leaves one row per
  tenant and date, refreshed by the second run. The keys of the metrics table stay
  distinct. For every tenant whose second sync succeeded, the table holds exactly one row
  for that tenant and date, and it carries the metrics of the second run's result. A tenant
  that already had its row gets no second one. The second run does write: for the tenant
  it reaches after the tenants \<open>pre\<close> of the roster, if the provider answers the fetch made
  at that moment with the metrics \<open>mk\<close> and the store takes the upsert, then the result at
  that place of the summary is a success reporting \<open>mk\<close>, and the one row of that tenant and
  date in the final table is the row of \<open>mk\<close>, stamped with the store's clock at that
  upsert. When the provider answers every fetch and the store takes every upsert, every
  result of the second run is a success, one per active tenant in roster order, the list of
  keys is the one the first run left, and each active tenant has exactly one row for the
  date. A sync onto an existing row replaces that row's metric columns and sets
  \<open>synced_at\<close> to the store's clock at the upsert, and leaves the other rows as they were.
\<close>

theorem resync_overwrites:
  "(distinct (map dm_key (daily_metrics w)) \<and> distinct (map cl_id (clients w))
     \<and> syncAllClients e dt w = (Inr s1, w1) \<and> syncAllClients e dt w1 = (Inr s2, w2) \<longrightarrow>
       distinct (map dm_key (daily_metrics w2))
     \<and> (\<forall>r\<in>set (results s2). success r \<longrightarrow>
           (\<exists>m t. result_metrics r = Some m
              \<and> filter (\<lambda>x. dm_key x = (clientId r, dt)) (daily_metrics w2) =
                  [metric_row (clientId r) dt m t]))
     \<and> ((\<forall>r\<in>set (results s2). success r \<longrightarrow>
            (\<exists>r1\<in>set (results s1). success r1 \<and> clientId r1 = clientId r)) \<longrightarrow>
          map dm_key (daily_metrics w2) = map dm_key (daily_metrics w1))
     \<and> (roster w1 = pre @ k # post
          \<and> fetchDailyMetrics e (cl_ga_property_id k) dt
               (snd (sync_clients_loop e dt pre (tick w1))) = (Inr mk, vk)
          \<and> db_fault e (step vk) UpsertDailyMetric = None \<longrightarrow>
            success (results s2 ! length pre)
          \<and> clientId (results s2 ! length pre) = cl_id k
          \<and> result_metrics (results s2 ! length pre) = Some mk
          \<and> filter (\<lambda>x. dm_key x = (cl_id k, dt)) (daily_metrics w2) =
              [metric_row (cl_id k) dt mk (db_now e (step vk))])
     \<and> (accepts e UpsertDailyMetric \<and> (\<forall>c\<in>set (roster w). fetch_returns e dt c) \<longrightarrow>
            map clientId (results s2) = map cl_id (roster w)
          \<and> (\<forall>r\<in>set (results s2). success r)
          \<and> map dm_key (daily_metrics w2) = map dm_key (daily_metrics w1)
          \<and> (\<forall>c\<in>set (roster w).
                length (filter (\<lambda>x. dm_key x = (cl_id c, dt)) (daily_metrics w2)) = 1)))
   \<and> (fetchDailyMetrics e (cl_ga_property_id c) dt w = (Inr m, v)
       \<and> db_fault e (step v) UpsertDailyMetric = None
       \<and> x \<in> set (daily_metrics w) \<and> dm_key x = (cl_id c, dt) \<longrightarrow>
       daily_metrics (snd (syncClientMetrics e c dt w)) =
         map (\<lambda>y. if dm_key y = (cl_id c, dt)
                  then metric_row (cl_id c) dt m (db_now e (step v)) else y)
           (daily_metrics w))"
proof (rule conjI [OF impI impI])
  assume "fetchDailyMetrics e (cl_ga_property_id c) dt w = (Inr m, v)
       \<and> db_fault e (step v) UpsertDailyMetric = None
       \<and> x \<in> set (daily_metrics w) \<and> dm_key x = (cl_id c, dt)"
  then show "daily_metrics (snd (syncClientMetrics e c dt w)) =
         map (\<lambda>y. if dm_key y = (cl_id c, dt)
                  then metric_row (cl_id c) dt m (db_now e (step v)) else y)
           (daily_metrics w)"
    using sync_overwrites by blast
next
  assume h: "distinct (map dm_key (daily_metrics w)) \<and> distinct (map cl_id (clients w))
     \<and> syncAllClients e dt w = (Inr s1, w1) \<and> syncAllClients e dt w1 = (Inr s2, w2)"
  then have run1: "syncAllClients e dt w = (Inr s1, w1)"
    and run2: "syncAllClients e dt w1 = (Inr s2, w2)" by simp_all
  have d1: "distinct (map dm_key (daily_metrics w1))"
    using syncAllClients_distinct [OF run1] h by simp
  have d2: "distinct (map dm_key (daily_metrics w2))"
    using syncAllClients_distinct [OF run2 d1] .
  have cl1: "clients w1 = clients w"
    using syncAllClients_clients [OF run1] .
  have ids1: "distinct (map cl_id (clients w1))"
    using h cl1 by simp
  have ro1: "roster w1 = roster w"
    by (simp add: roster_def cl1)
  note res1 = syncAllClients_results [OF run1] and res2 = syncAllClients_results [OF run2]
  note rows1 = syncAllClients_rows [OF run1] and rows2 = syncAllClients_rows [OF run2 ids1]
  have single: "\<forall>r\<in>set (results s2). success r \<longrightarrow>
           (\<exists>m t. result_metrics r = Some m
              \<and> filter (\<lambda>x. dm_key x = (clientId r, dt)) (daily_metrics w2) =
                  [metric_row (clientId r) dt m t])"
  proof (intro ballI impI)
    fix r assume "r \<in> set (results s2)" and "success r"
    then obtain m t where m: "result_metrics r = Some m"
      and row: "metric_row (clientId r) dt m t \<in> set (daily_metrics w2)"
      using rows2 by blast
    have "filter (\<lambda>x. dm_key x = dm_key (metric_row (clientId r) dt m t)) (daily_metrics w2) =
            [metric_row (clientId r) dt m t]"
      using d2 row by (rule distinct_filter_single)
    with m show "\<exists>m t. result_metrics r = Some m
              \<and> filter (\<lambda>x. dm_key x = (clientId r, dt)) (daily_metrics w2) =
                  [metric_row (clientId r) dt m t]"
      by (auto simp: metric_row_key)
  qed
  have keys: "map dm_key (daily_metrics w2) = map dm_key (daily_metrics w1)"
    if again: "\<forall>r\<in>set (results s2). success r \<longrightarrow>
            (\<exists>r1\<in>set (results s1). success r1 \<and> clientId r1 = clientId r)"
  proof -
    have "\<forall>r\<in>set (results s2). success r \<longrightarrow>
            (clientId r, dt) \<in> set (map dm_key (daily_metrics w1))"
    proof (intro ballI impI)
      fix r assume "r \<in> set (results s2)" and "success r"
      then obtain r1 where r1: "r1 \<in> set (results s1)" "success r1" "clientId r1 = clientId r"
        using again by blast
      then obtain m t where "metric_row (clientId r1) dt m t \<in> set (daily_metrics w1)"
        using rows1 h by blast
      then have "dm_key (metric_row (clientId r1) dt m t) \<in> set (map dm_key (daily_metrics w1))"
        by (auto simp: image_iff)
      then show "(clientId r, dt) \<in> set (map dm_key (daily_metrics w1))"
        using r1(3) by (simp add: metric_row_key)
    qed
    then have "\<forall>r\<in>set (fst (sync_clients_loop e dt (roster w1) (tick w1))). success r \<longrightarrow>
            (clientId r, dt) \<in> set (map dm_key (daily_metrics (tick w1)))"
      using res2 by (simp add: tick_def)
    from loop_keys_unchanged [OF this] res2
    show ?thesis by (simp add: tick_def)
  qed
  have writes: "success (results s2 ! length pre)
          \<and> clientId (results s2 ! length pre) = cl_id k
          \<and> result_metrics (results s2 ! length pre) = Some mk
          \<and> filter (\<lambda>x. dm_key x = (cl_id k, dt)) (daily_metrics w2) =
              [metric_row (cl_id k) dt mk (db_now e (step vk))]"
    if at: "roster w1 = pre @ k # post
          \<and> fetchDailyMetrics e (cl_ga_property_id k) dt
               (snd (sync_clients_loop e dt pre (tick w1))) = (Inr mk, vk)
          \<and> db_fault e (step vk) UpsertDailyMetric = None"
  proof -
    from at have ro: "roster w1 = pre @ k # post"
      and F: "fetchDailyMetrics e (cl_ga_property_id k) dt
               (snd (sync_clients_loop e dt pre (tick w1))) = (Inr mk, vk)"
      and up: "db_fault e (step vk) UpsertDailyMetric = None"
      by simp_all
    have ids: "distinct (map cl_id (pre @ k # post))"
      using roster_distinct [OF ids1] ro by simp
    note L = loop_writes_row [OF ids F up]
    have rs: "results s2 = fst (sync_clients_loop e dt (pre @ k # post) (tick w1))"
      and w2: "w2 = snd (sync_clients_loop e dt (pre @ k # post) (tick w1))"
      using res2 ro by simp_all
    have row: "metric_row (cl_id k) dt mk (db_now e (step vk)) \<in> set (daily_metrics w2)"
      using L(4) by (simp add: w2)
    have "filter (\<lambda>x. dm_key x = dm_key (metric_row (cl_id k) dt mk (db_now e (step vk))))
            (daily_metrics w2) = [metric_row (cl_id k) dt mk (db_now e (step vk))]"
      using d2 row by (rule distinct_filter_single)
    then have "filter (\<lambda>x. dm_key x = (cl_id k, dt)) (daily_metrics w2) =
                 [metric_row (cl_id k) dt mk (db_now e (step vk))]"
      by (simp add: metric_row_key)
    with L(1,2,3) show ?thesis by (simp add: rs)
  qed
  have every: "map clientId (results s2) = map cl_id (roster w)
          \<and> (\<forall>r\<in>set (results s2). success r)
          \<and> map dm_key (daily_metrics w2) = map dm_key (daily_metrics w1)
          \<and> (\<forall>c\<in>set (roster w).
                length (filter (\<lambda>x. dm_key x = (cl_id c, dt)) (daily_metrics w2)) = 1)"
    if env: "accepts e UpsertDailyMetric \<and> (\<forall>c\<in>set (roster w). fetch_returns e dt c)"
  proof -
    from env have acc: "accepts e UpsertDailyMetric"
      and ret: "\<forall>c\<in>set (roster w). fetch_returns e dt c" by simp_all
    have ids2: "map clientId (results s2) = map cl_id (roster w)"
      using res2 by (simp add: loop_results(1) ro1)
    have ids1': "map clientId (results s1) = map cl_id (roster w)"
      using res1 by (simp add: loop_results(1))
    have su1: "\<forall>r\<in>set (results s1). success r"
      using res1 loop_all_success [OF acc ret, of "tick w"] by simp
    have su2: "\<forall>r\<in>set (results s2). success r"
      using res2 loop_all_success [OF acc ret, of "tick w1"] by (simp add: ro1)
    have again: "\<forall>r\<in>set (results s2). success r \<longrightarrow>
            (\<exists>r1\<in>set (results s1). success r1 \<and> clientId r1 = clientId r)"
    proof (intro ballI impI)
      fix r assume "r \<in> set (results s2)"
      then have "clientId r \<in> set (map clientId (results s2))" by simp
      then have "clientId r \<in> set (map clientId (results s1))" by (simp add: ids1' ids2)
      then show "\<exists>r1\<in>set (results s1). success r1 \<and> clientId r1 = clientId r"
        using su1 by auto
    qed
    have one: "\<forall>c\<in>set (roster w).
                length (filter (\<lambda>x. dm_key x = (cl_id c, dt)) (daily_metrics w2)) = 1"
    proof
      fix c assume "c \<in> set (roster w)"
      then have "cl_id c \<in> set (map clientId (results s2))" by (simp add: ids2)
      then obtain r where r: "r \<in> set (results s2)" "clientId r = cl_id c" by auto
      with su2 single obtain m t where
        "filter (\<lambda>x. dm_key x = (clientId r, dt)) (daily_metrics w2) =
           [metric_row (clientId r) dt m t]"
        by blast
      then show "length (filter (\<lambda>x. dm_key x = (cl_id c, dt)) (daily_metrics w2)) = 1"
        using r(2) by simp
    qed
    from ids2 su2 keys [OF again] one show ?thesis by simp
  qed
  have keys': "(\<forall>r\<in>set (results s2). success r \<longrightarrow>
            (\<exists>r1\<in>set (results s1). success r1 \<and> clientId r1 = clientId r)) \<longrightarrow>
          map dm_key (daily_metrics w2) = map dm_key (daily_metrics w1)"
    by (rule impI) (rule keys)
  have writes': "roster w1 = pre @ k # post
          \<and> fetchDailyMetrics e (cl_ga_property_id k) dt
               (snd (sync_clients_loop e dt pre (tick w1))) = (Inr mk, vk)
          \<and> db_fault e (step vk) UpsertDailyMetric = None \<longrightarrow>
            success (results s2 ! length pre)
          \<and> clientId (results s2 ! length pre) = cl_id k
          \<and> result_metrics (results s2 ! length pre) = Some mk
          \<and> filter (\<lambda>x. dm_key x = (cl_id k, dt)) (daily_metrics w2) =
              [metric_row (cl_id k) dt mk (db_now e (step vk))]"
    by (rule impI) (rule writes)
  have every': "accepts e UpsertDailyMetric \<and> (\<forall>c\<in>set (roster w). fetch_returns e dt c) \<longrightarrow>
            map clientId (results s2) = map cl_id (roster w)
          \<and> (\<forall>r\<in>set (results s2). success r)
          \<and> map dm_key (daily_metrics w2) = map dm_key (daily_metrics w1)
          \<and> (\<forall>c\<in>set (roster w).
                length (filter (\<lambda>x. dm_key x = (cl_id c, dt)) (daily_metrics w2)) = 1)"
    by (rule impI) (rule every)
  show "distinct (map dm_key (daily_metrics w2))
     \<and> (\<forall>r\<in>set (results s2). success r \<longrightarrow>
           (\<exists>m t. result_metrics r = Some m
              \<and> filter (\<lambda>x. dm_key x = (clientId r, dt)) (daily_metrics w2) =
                  [metric_row (clientId r) dt m t]))
     \<and> ((\<forall>r\<in>set (results s2). success r \<longrightarrow>
            (\<exists>r1\<in>set (results s1). success r1 \<and> clientId r1 = clientId r)) \<longrightarrow>
          map dm_key (daily_metrics w2) = map dm_key (daily_metrics w1))
     \<and> (roster w1 = pre @ k # post
          \<and> fetchDailyMetrics e (cl_ga_property_id k) dt
               (snd (sync_clients_loop e dt pre (tick w1))) = (Inr mk, vk)
          \<and> db_fault e (step vk) UpsertDailyMetric = None \<longrightarrow>
            success (results s2 ! length pre)
          \<and> clientId (results s2 ! length pre) = cl_id k
          \<and> result_metrics (results s2 ! length pre) = Some mk
          \<and> filter (\<lambda>x. dm_key x = (cl_id k, dt)) (daily_metrics w2) =
              [metric_row (cl_id k) dt mk (db_now e (step vk))])
     \<and> (accepts e UpsertDailyMetric \<and> (\<forall>c\<in>set (roster w). fetch_returns e dt c) \<longrightarrow>
            map clientId (results s2) = map cl_id (roster w)
          \<and> (\<forall>r\<in>set (results s2). success r)
          \<and> map dm_key (daily_metrics w2) = map dm_key (daily_metrics w1)
          \<and> (\<forall>c\<in>set (roster w).
                length (filter (\<lambda>x. dm_key x = (cl_id c, dt)) (daily_metrics w2)) = 1))"
    by (rule conjI [OF d2 conjI [OF single conjI [OF keys' conjI [OF writes' every']]]])
qed

lemma two_rows:
  assumes "map f xs = [a, b]" and "a \<noteq> b"
      and "filter (\<lambda>x. f x = a) xs = [r1]" and "filter (\<lambda>x. f x = b) xs = [r2]"
  shows "xs = [r1, r2]"
proof -
  from assms(1) obtain x y where xs: "xs = [x, y]" "f x = a" "f y = b"
    by (auto simp: map_eq_Cons_conv)
  with assms(2,3,4) show ?thesis by (auto split: if_splits)
qed

theorem resync_overwrites_witness:
  "(\<exists>s1 w1 s2 w2.
      syncAllClients late_data_env ''2024-03-01'' stale_world = (Inr s1, w1)
      \<and> syncAllClients late_data_env ''2024-03-01'' w1 = (Inr s2, w2)
      \<and> map success (results s2) = [True, True]
      \<and> map clientId (results s2) = [1, 2]
      \<and> map result_metrics (results s2) =
          [Some \<lparr>sessions = 150, users = 100, newUsers = 40, pageviews = 500,
                 avgSessionDuration = Fin 90, bounceRate = Fin 50,
                 date = ''2024-03-01'', organicSessions = 60\<rparr>,
           Some \<lparr>sessions = 150, users = 100, newUsers = 40, pageviews = 500,
                 avgSessionDuration = Fin 90, bounceRate = Fin 50,
                 date = ''2024-03-01'', organicSessions = 60\<rparr>]
      \<and> daily_metrics w1 =
          [\<lparr>dm_client_id = 1, dm_date = ''2024-03-01'', dm_sessions = 0, dm_users = 0,
            dm_new_users = 0, dm_pageviews = 0, dm_avg_session_duration = Fin 0,
            dm_bounce_rate = Fin 0, dm_organic_sessions = 0, dm_synced_at = 3\<rparr>,
           \<lparr>dm_client_id = 2, dm_date = ''2024-03-01'', dm_sessions = 0, dm_users = 0,
            dm_new_users = 0, dm_pageviews = 0, dm_avg_session_duration = Fin 0,
            dm_bounce_rate = Fin 0, dm_organic_sessions = 0, dm_synced_at = 8\<rparr>]
      \<and> daily_metrics w2 =
          [\<lparr>dm_client_id = 1, dm_date = ''2024-03-01'', dm_sessions = 150, dm_users = 100,
            dm_new_users = 40, dm_pageviews = 500, dm_avg_session_duration = Fin 90,
            dm_bounce_rate = Fin 50, dm_organic_sessions = 60, dm_synced_at = 14\<rparr>,
           \<lparr>dm_client_id = 2, dm_date = ''2024-03-01'', dm_sessions = 150, dm_users = 100,
            dm_new_users = 40, dm_pageviews = 500, dm_avg_session_duration = Fin 90,
            dm_bounce_rate = Fin 50, dm_organic_sessions = 60, dm_synced_at = 19\<rparr>])
   \<and> daily_metrics (snd (syncClientMetrics late_data_env acme ''2024-03-01'' stale_world)) =
       [\<lparr>dm_client_id = 1, dm_date = ''2024-03-01'', dm_sessions = 0, dm_users = 0,
         dm_new_users = 0, dm_pageviews = 0, dm_avg_session_duration = Fin 0,
         dm_bounce_rate = Fin 0, dm_organic_sessions = 0, dm_synced_at = 2\<rparr>]"
proof -
  let ?d = "''2024-03-01''"
  let ?e = "late_data_env"
  let ?M = "\<lparr>sessions = 150, users = 100, newUsers = 40, pageviews = 500,
             avgSessionDuration = Fin 90, bounceRate = Fin 50,
             date = ?d, organicSessions = 60\<rparr>"
  let ?Z = "\<lparr>sessions = 0, users = 0, newUsers = 0, pageviews = 0,
             avgSessionDuration = Fin 0, bounceRate = Fin 0,
             date = ?d, organicSessions = 0\<rparr>"
  let ?stale = "\<lparr>dm_client_id = 1, dm_date = ''2024-03-01'', dm_sessions = 120, dm_users = 80,
         dm_new_users = 30, dm_pageviews = 400, dm_avg_session_duration = Fin 95.5,
         dm_bounce_rate = Fin 38, dm_organic_sessions = 45, dm_synced_at = - 1000\<rparr>"
  let ?W1 = "snd (syncAllClients ?e ?d stale_world)"
  have ok: "\<And>w. db_fault ?e (step w) SelectActiveClients = None"
    by (simp add: late_data_env_def quiet_env_def)
  have acc: "accepts ?e UpsertDailyMetric"
    by (simp add: accepts_def late_data_env_def quiet_env_def)
  have up: "\<And>n. db_fault ?e n UpsertDailyMetric = None"
    by (simp add: late_data_env_def quiet_env_def)
  have now: "\<And>n. db_now ?e n = int n"
    by (simp add: late_data_env_def quiet_env_def)
  have cl: "clients stale_world = [beta, gone, acme]"
    by (simp add: stale_world_def three_clients_def empty_world_def)
  have ro: "roster stale_world = [acme, beta]"
    by (simp add: roster_def cl acme_def beta_def gone_def)
  obtain s1 w1 where run1: "syncAllClients ?e ?d stale_world = (Inr s1, w1)"
    by (simp add: syncAllClients_loaded [OF ok] ro)
  have w1: "w1 = ?W1" by (simp add: run1)
  have cl1: "clients w1 = clients stale_world"
    using syncAllClients_clients [OF run1] .
  then have ro1: "roster w1 = [acme, beta]"
    using ro by (simp add: roster_def)
  obtain s2 w2 where run2: "syncAllClients ?e ?d w1 = (Inr s2, w2)"
    by (simp add: syncAllClients_loaded [OF ok] ro1)
  have keys: "distinct (map dm_key (daily_metrics stale_world))"
    by (simp add: stale_world_def three_clients_def empty_world_def)
  have ids: "distinct (map cl_id (clients stale_world))"
    by (simp add: cl acme_def beta_def gone_def)
  have ret: "\<forall>c\<in>set (roster stale_world). fetch_returns ?e ?d c"
    by (simp add: late_data_env_returns)
  have t1: "daily_metrics ?W1 =
          [\<lparr>dm_client_id = 1, dm_date = ''2024-03-01'', dm_sessions = 0, dm_users = 0,
            dm_new_users = 0, dm_pageviews = 0, dm_avg_session_duration = Fin 0,
            dm_bounce_rate = Fin 0, dm_organic_sessions = 0, dm_synced_at = 3\<rparr>,
           \<lparr>dm_client_id = 2, dm_date = ''2024-03-01'', dm_sessions = 0, dm_users = 0,
            dm_new_users = 0, dm_pageviews = 0, dm_avg_session_duration = Fin 0,
            dm_bounce_rate = Fin 0, dm_organic_sessions = 0, dm_synced_at = 8\<rparr>]"
    by code_simp
  obtain fa va where Fa: "fetchDailyMetrics ?e (cl_ga_property_id acme) ?d
      (snd (sync_clients_loop ?e ?d [] (tick w1))) = (fa, va)"
    by (rule prod.exhaust)
  have "fst (fetchDailyMetrics ?e (cl_ga_property_id acme) ?d
      (snd (sync_clients_loop ?e ?d [] (tick ?W1)))) = Inr ?M"
    by code_simp
  then have fa: "fa = Inr ?M" using Fa by (simp add: w1)
  have "step (snd (fetchDailyMetrics ?e (cl_ga_property_id acme) ?d
      (snd (sync_clients_loop ?e ?d [] (tick ?W1))))) = 14"
    by code_simp
  then have va: "step va = 14" using Fa by (simp add: w1)
  obtain fb vb where Fb: "fetchDailyMetrics ?e (cl_ga_property_id beta) ?d
      (snd (sync_clients_loop ?e ?d [acme] (tick w1))) = (fb, vb)"
    by (rule prod.exhaust)
  have "fst (fetchDailyMetrics ?e (cl_ga_property_id beta) ?d
      (snd (sync_clients_loop ?e ?d [acme] (tick ?W1)))) = Inr ?M"
    by code_simp
  then have fb: "fb = Inr ?M" using Fb by (simp add: w1)
  have "step (snd (fetchDailyMetrics ?e (cl_ga_property_id beta) ?d
      (snd (sync_clients_loop ?e ?d [acme] (tick ?W1))))) = 19"
    by code_simp
  then have vb: "step vb = 19" using Fb by (simp add: w1)
  have F0: "fetchDailyMetrics ?e (cl_ga_property_id acme) ?d stale_world =
             (Inr ?Z, stale_world\<lparr>step := Suc (Suc (step stale_world))\<rparr>)"
    by (rule fetch_no_rows [where ?r1.0 = "\<lparr>rows = None\<rparr>" and ?r2.0 = "\<lparr>rows = None\<rparr>"])
       (simp_all add: late_data_env_def quiet_env_def stale_world_def three_clients_def
          empty_world_def)
  note A = resync_overwrites [where w = stale_world and e = ?e and dt = ?d and ?s1.0 = s1
      and ?w1.0 = w1 and ?s2.0 = s2 and ?w2.0 = w2 and pre = "[]" and k = acme
      and post = "[beta]" and mk = ?M and vk = va and c = acme and m = ?Z
      and v = "stale_world\<lparr>step := Suc (Suc (step stale_world))\<rparr>" and x = ?stale]
  note B = resync_overwrites [where w = stale_world and e = ?e and dt = ?d and ?s1.0 = s1
      and ?w1.0 = w1 and ?s2.0 = s2 and ?w2.0 = w2 and pre = "[acme]" and k = beta
      and post = "[]" and mk = ?M and vk = vb and c = acme and m = ?Z
      and v = "stale_world\<lparr>step := Suc (Suc (step stale_world))\<rparr>" and x = ?stale]
  from A keys ids run1 run2 ro1 Fa fa va up
  have a0: "success (results s2 ! 0)" and a1: "result_metrics (results s2 ! 0) = Some ?M"
    and a2: "filter (\<lambda>x. dm_key x = (cl_id acme, ?d)) (daily_metrics w2) =
               [metric_row (cl_id acme) ?d ?M (db_now ?e (step va))]"
    by simp_all
  from B keys ids run1 run2 ro1 Fb fb vb up
  have b0: "success (results s2 ! 1)" and b1: "result_metrics (results s2 ! 1) = Some ?M"
    and b2: "filter (\<lambda>x. dm_key x = (cl_id beta, ?d)) (daily_metrics w2) =
               [metric_row (cl_id beta) ?d ?M (db_now ?e (step vb))]"
    by simp_all
  from A keys ids run1 run2 acc ret
  have c0: "map clientId (results s2) = map cl_id (roster stale_world)"
    and c1: "map dm_key (daily_metrics w2) = map dm_key (daily_metrics w1)"
    by simp_all
  have ids2: "map clientId (results s2) = [1, 2]"
    using c0 by (simp add: ro acme_def beta_def)
  then obtain x y where rs: "results s2 = [x, y]"
    by (auto simp: map_eq_Cons_conv)
  have su: "map success (results s2) = [True, True]"
    using a0 b0 by (simp add: rs)
  have me: "map result_metrics (results s2) = [Some ?M, Some ?M]"
    using a1 b1 by (simp add: rs)
  have k2: "map dm_key (daily_metrics w2) = [(1, ?d), (2, ?d)]"
    using c1 t1 by (simp add: w1 dm_key_def)
  have tab: "daily_metrics w2 =
               [metric_row (cl_id acme) ?d ?M (db_now ?e (step va)),
                metric_row (cl_id beta) ?d ?M (db_now ?e (step vb))]"
  proof (rule two_rows [OF k2])
    show "(1::int, ?d) \<noteq> (2, ?d)" by simp
    show "filter (\<lambda>x. dm_key x = (1, ?d)) (daily_metrics w2) =
            [metric_row (cl_id acme) ?d ?M (db_now ?e (step va))]"
      using a2 by (simp add: acme_def)
    show "filter (\<lambda>x. dm_key x = (2, ?d)) (daily_metrics w2) =
            [metric_row (cl_id beta) ?d ?M (db_now ?e (step vb))]"
      using b2 by (simp add: beta_def)
  qed
  have t2: "daily_metrics w2 =
          [\<lparr>dm_client_id = 1, dm_date = ''2024-03-01'', dm_sessions = 150, dm_users = 100,
            dm_new_users = 40, dm_pageviews = 500, dm_avg_session_duration = Fin 90,
            dm_bounce_rate = Fin 50, dm_organic_sessions = 60, dm_synced_at = 14\<rparr>,
           \<lparr>dm_client_id = 2, dm_date = ''2024-03-01'', dm_sessions = 150, dm_users = 100,
            dm_new_users = 40, dm_pageviews = 500, dm_avg_session_duration = Fin 90,
            dm_bounce_rate = Fin 50, dm_organic_sessions = 60, dm_synced_at = 19\<rparr>]"
    by (simp add: tab va vb now metric_row_def acme_def beta_def)
  have "daily_metrics (snd (syncClientMetrics ?e acme ?d stale_world)) =
         map (\<lambda>y. if dm_key y = (cl_id acme, ?d)
                  then metric_row (cl_id acme) ?d ?Z
                         (db_now ?e (step (stale_world\<lparr>step := Suc (Suc (step stale_world))\<rparr>)))
                  else y)
           (daily_metrics stale_world)"
    using A F0 up
    by (simp add: stale_world_def three_clients_def empty_world_def acme_def dm_key_def)
  then have single: "daily_metrics (snd (syncClientMetrics ?e acme ?d stale_world)) =
       [\<lparr>dm_client_id = 1, dm_date = ''2024-03-01'', dm_sessions = 0, dm_users = 0,
         dm_new_users = 0, dm_pageviews = 0, dm_avg_session_duration = Fin 0,
         dm_bounce_rate = Fin 0, dm_organic_sessions = 0, dm_synced_at = 2\<rparr>]"
    by (simp add: now stale_world_def three_clients_def empty_world_def
          acme_def dm_key_def metric_row_def)
  have batch: "\<exists>s1 w1 s2 w2.
      syncAllClients ?e ?d stale_world = (Inr s1, w1)
      \<and> syncAllClients ?e ?d w1 = (Inr s2, w2)
      \<and> map success (results s2) = [True, True]
      \<and> map clientId (results s2) = [1, 2]
      \<and> map result_metrics (results s2) = [Some ?M, Some ?M]
      \<and> daily_metrics w1 =
          [\<lparr>dm_client_id = 1, dm_date = ''2024-03-01'', dm_sessions = 0, dm_users = 0,
            dm_new_users = 0, dm_pageviews = 0, dm_avg_session_duration = Fin 0,
            dm_bounce_rate = Fin 0, dm_organic_sessions = 0, dm_synced_at = 3\<rparr>,
           \<lparr>dm_client_id = 2, dm_date = ''2024-03-01'', dm_sessions = 0, dm_users = 0,
            dm_new_users = 0, dm_pageviews = 0, dm_avg_session_duration = Fin 0,
            dm_bounce_rate = Fin 0, dm_organic_sessions = 0, dm_synced_at = 8\<rparr>]
      \<and> daily_metrics w2 =
          [\<lparr>dm_client_id = 1, dm_date = ''2024-03-01'', dm_sessions = 150, dm_users = 100,
            dm_new_users = 40, dm_pageviews = 500, dm_avg_session_duration = Fin 90,
            dm_bounce_rate = Fin 50, dm_organic_sessions = 60, dm_synced_at = 14\<rparr>,
           \<lparr>dm_client_id = 2, dm_date = ''2024-03-01'', dm_sessions = 150, dm_users = 100,
            dm_new_users = 40, dm_pageviews = 500, dm_avg_session_duration = Fin 90,
            dm_bounce_rate = Fin 50, dm_organic_sessions = 60, dm_synced_at = 19\<rparr>]"
    using run1 run2 su ids2 me t1 t2 w1
    by (intro exI [of _ s1] exI [of _ w1] exI [of _ s2] exI [of _ w2]) simp
  show ?thesis by (rule conjI [OF batch single])
qed

subsection \<open>The access probe\<close>

text \<open>
  Claim C6, as the code has it. \<open>validatePropertyAccess\<close> returns true exactly when the
  metadata probe succeeds and false whenever the probe fails, whatever the error:
  access denied, transient or unexpected. It never throws.
\<close>

theorem validatePropertyAccess_never_throws:
  "(\<exists>b. fst (validatePropertyAccess e p w) = Inr b)
   \<and> (fst (validatePropertyAccess e p w) = Inr True) =
       (getMetadata e (step w) (''properties/'' @ p @ ''/metadata'') = None)
   \<and> (fst (validatePropertyAccess e p w) = Inr False) =
       (\<exists>err. getMetadata e (step w) (''properties/'' @ p @ ''/metadata'') = Some err)"
  by (cases "getMetadata e (step w) (''properties/'' @ p @ ''/metadata'')")
     (auto simp: validatePropertyAccess_def Let_def)

text \<open>
  A transient failure of the probe (the provider answers \<open>UNAVAILABLE\<close>) is turned into
  the answer false: nothing is thrown.
\<close>

theorem validatePropertyAccess_transient_counterexample:
  "getMetadata metadata_unavailable_env (step empty_world) ''properties/111/metadata'' =
     Some \<lparr>code = Some ''UNAVAILABLE'', message = ''503 Service Unavailable''\<rparr>
   \<and> fst (validatePropertyAccess metadata_unavailable_env ''111'' empty_world) = Inr False"
  by (simp add: validatePropertyAccess_def metadata_unavailable_env_def Let_def)

subsection \<open>Yesterday\<close>

lemma setDate_fixed_zone:
  "setDate_getDate_plus (fixed_zone k) t j = t + j * msPerDay"
  by (simp add: setDate_getDate_plus_def UTC_def LocalTime_def fixed_zone_def)

lemma getYesterdayDate_fixed_zone:
  "getYesterdayDate (fixed_zone k) e w =
     iso_date ((date_now e (step w) div msPerDay - 1) * msPerDay)"
proof -
  have "(date_now e (step w) - msPerDay) div msPerDay = date_now e (step w) div msPerDay - 1"
    by (simp add: msPerDay_def)
  moreover have "((date_now e (step w) div msPerDay - 1) * msPerDay) div msPerDay
                   = date_now e (step w) div msPerDay - 1"
    by (simp add: msPerDay_def)
  ultimately show ?thesis
    by (simp add: getYesterdayDate_def setDate_fixed_zone Date_now_def iso_date_def)
qed

text \<open>
  Claim C7. \<open>syncYesterday\<close> returns what \<open>syncAllClients\<close> returns for the date of
  \<open>getYesterdayDate\<close>. In a zone at a fixed offset from UTC that date is the UTC date of the
  clock minus one day, whatever the offset: the date the claim asks for when the process's
  zone is UTC. In a process five and a half hours ahead of UTC whose clock reads
  2024-01-14T21:30:00Z (03:00 on 15 January, local time) the code syncs 2024-01-13, where
  the local date minus one day is 2024-01-14.
\<close>

theorem syncYesterday_date:
  "syncYesterday z e w = syncAllClients e (getYesterdayDate z e w) w
   \<and> getYesterdayDate (fixed_zone k) e w = yesterday_in_zone 0 (date_now e (step w))
   \<and> getYesterdayDate (fixed_zone 19800000) late_evening_env empty_world = ''2024-01-13''
   \<and> yesterday_in_zone 19800000 (date_now late_evening_env (step empty_world)) = ''2024-01-14''"
proof (intro conjI)
  show "syncYesterday z e w = syncAllClients e (getYesterdayDate z e w) w"
    by (simp add: syncYesterday_def Let_def)
  show "getYesterdayDate (fixed_zone k) e w = yesterday_in_zone 0 (date_now e (step w))"
    by (simp add: getYesterdayDate_fixed_zone yesterday_in_zone_def)
  show "getYesterdayDate (fixed_zone 19800000) late_evening_env empty_world = ''2024-01-13''"
    by code_simp
  show "yesterday_in_zone 19800000 (date_now late_evening_env (step empty_world)) = ''2024-01-14''"
    by code_simp
qed

subsection \<open>Backfill of a range of dates\<close>




text \<open>
  Across a change of the offset the day that \<^verbatim>\<open>setDate\<close> adds is 23 or 25 hours long,
  while the dates are printed in UTC: in New York the three days from 2 to 4 November 2024
  give two dates, and those from 9 to 11 March 2024 give the 10th twice and the 11th never.
\<close>

lemma generateDateRange_daylight_saving:
  "generateDateRange new_york_2024 ''2024-11-02'' ''2024-11-04'' =
     Some [''2024-11-02'', ''2024-11-03'']
   \<and> generateDateRange new_york_2024 ''2024-03-09'' ''2024-03-11'' =
       Some [''2024-03-09'', ''2024-03-10'', ''2024-03-10'']"
  by code_simp
















subsection \<open>Runs in flight\<close>

text \<open>The flag does its work between runs of the middleware.\<close>

lemma auto_sync_guard:
  assumes "set evs \<subseteq> {Enter AutoSync, Settled AutoSync}"
      and "(in_flight p = [] \<and> \<not> syncInProgress p) \<or> (in_flight p = [AutoSync] \<and> syncInProgress p)"
  shows "\<not> overlapping p evs"
  using assms
proof (induction evs arbitrary: p)
  case Nil
  then show ?case by simp
next
  case (Cons ev evs)
  then have ev: "ev = Enter AutoSync \<or> ev = Settled AutoSync" by simp
  have here: "\<not> (starts_sync p ev \<and> in_flight p \<noteq> [])"
    using ev Cons.prems(2) by auto
  have inv: "(in_flight (fire p ev) = [] \<and> \<not> syncInProgress (fire p ev))
             \<or> (in_flight (fire p ev) = [AutoSync] \<and> syncInProgress (fire p ev))"
    using ev Cons.prems(2) by auto
  have "\<not> overlapping (fire p ev) evs"
    using Cons.IH [OF _ inv] Cons.prems(1) by simp
  with here show ?case by simp
qed

text \<open>
  Claim C9. The claim fails on the code: the manual trigger and the scheduled job start
  their run without looking at \<open>syncInProgress\<close>. Two manual triggers in a row, a manual
  trigger during an auto-sync, and an auto-sync during a scheduled run each start a second
  run over the roster while the first is in flight. Only a second auto-sync is skipped.
\<close>

theorem overlapping_syncs:
  "overlapping idle [Enter Manual, Enter Manual]
   \<and> overlapping idle [Enter AutoSync, Enter Manual]
   \<and> overlapping idle [Enter Scheduled, Enter AutoSync]
   \<and> \<not> overlapping idle [Enter AutoSync, Enter AutoSync, Settled AutoSync, Enter AutoSync]"
  by (simp add: idle_def)

end
